theory Spec2Isabelle
  imports Main "HOL-Library.Word" "HOL-Library.Sublist"
begin

unbundle bit_operations_syntax

section \<open>Data model of src/pcie\_errors.c\<close>

text \<open>
  The plugin configuration \<^verbatim>\<open>pcie_config_t\<close>: the two policy switches that the
  register path consults. The remaining fields (paths, log switches) select which
  entry points run and are not read by the functions modelled here.
\<close>

record pcie_config =
  notif_masked :: bool
  persistent :: bool

text \<open>
  \<^verbatim>\<open>pcie_device_t\<close>. \<^verbatim>\<open>domain\<close>, \<^verbatim>\<open>cap_exp\<close> and \<^verbatim>\<open>ecap_aer\<close> are C ints; the
  domain is only ever printed with \<^verbatim>\<open>%04x\<close>, so it is kept as the 32-bit pattern. The
  field \<^verbatim>\<open>function\<close> is called \<open>fn\<close> here. The file descriptor \<^verbatim>\<open>fd\<close> is represented by
  the opened file that \<open>fops_open\<close> hands back.
\<close>

record pcie_device =
  domain :: "32 word"
  bus :: "8 word"
  device :: "8 word"
  fn :: "8 word"
  cap_exp :: int
  ecap_aer :: int
  device_status :: "16 word"
  correctable_errors :: "32 word"
  uncorrectable_errors :: "32 word"

text \<open>\<^verbatim>\<open>pcie_error_t\<close>: one catalog entry (\<^verbatim>\<open>mask\<close>, \<^verbatim>\<open>desc\<close>).\<close>

record pcie_error =
  mask_err :: "32 word"
  desc :: string

text \<open>
  \<^verbatim>\<open>notification_t\<close> as the sink receives it. \<^verbatim>\<open>time\<close> (wall clock) and \<^verbatim>\<open>host\<close> (the
  global host name) are left out: no function here branches on them. The severity is one
  of the daemon's three constants; \<open>NOTIF_UNSET\<close> is the value 0 that the field of a
  zero-initialised notification holds before a severity is assigned.
\<close>

datatype notif_severity = NOTIF_UNSET | NOTIF_FAILURE | NOTIF_WARNING | NOTIF_OKAY

record notification =
  severity :: notif_severity
  message :: string
  plugin :: string
  plugin_instance :: string
  type :: string
  type_instance :: string
  meta :: "(string \<times> string) list"

text \<open>
  An opened configuration-space file: the result of \<^verbatim>\<open>pread(fd, buff, size, pos)\<close>, either
  the bytes delivered (possibly fewer than asked for) or \<open>None\<close> for the error return
  \<open>-1\<close>. The function table \<^verbatim>\<open>pcie_fops\<close> is represented by its \<^verbatim>\<open>open\<close> member, which
  looks only at the device address (domain, bus, device, function).
\<close>

type_synonym pcie_file = "nat \<Rightarrow> int \<Rightarrow> 8 word list option"

type_synonym pcie_addr = "32 word \<times> 8 word \<times> 8 word \<times> 8 word"

record pcie_fops =
  fops_open :: "pcie_addr \<Rightarrow> pcie_file option"

definition pcie_dev_addr :: "pcie_device \<Rightarrow> pcie_addr" where
  "pcie_dev_addr dev = (domain dev, bus dev, device dev, fn dev)"

section \<open>Constants\<close>

definition PCIE_ERRORS_PLUGIN :: string where "PCIE_ERRORS_PLUGIN = ''pcie_errors''"
definition PCIE_ERROR :: string where "PCIE_ERROR = ''pcie_error''"
definition PCIE_SEV_CE :: string where "PCIE_SEV_CE = ''correctable''"
definition PCIE_SEV_FATAL :: string where "PCIE_SEV_FATAL = ''fatal''"
definition PCIE_SEV_NOFATAL :: string where "PCIE_SEV_NOFATAL = ''non_fatal''"
definition PCIE_ECAP_OFFSET :: int where "PCIE_ECAP_OFFSET = 0x100"
definition PCIE_LOG_SEVERITY :: string where "PCIE_LOG_SEVERITY = ''severity''"
definition PCIE_LOG_DEV :: string where "PCIE_LOG_DEV = ''device''"

text \<open>
  Modelled from the spec: the register offsets and bit masks below come from the system
  header \<^verbatim>\<open>linux/pci_regs.h\<close>, which the source includes and which is not under src/.
  The spec fixes their roles (capability pointer, 0xFF terminator aside, low two pointer
  bits masked off, extended space at 0x100, 16-bit extended ID and 12-bit next pointer,
  Device Status low nibble); the numbers are those of the PCI Express register layout.
\<close>

definition PCI_STATUS :: int where "PCI_STATUS = 0x06"
definition PCI_STATUS_CAP_LIST :: "16 word" where "PCI_STATUS_CAP_LIST = 0x10"
definition PCI_CAPABILITY_LIST :: int where "PCI_CAPABILITY_LIST = 0x34"
definition PCI_CAP_LIST_ID :: int where "PCI_CAP_LIST_ID = 0"
definition PCI_CAP_LIST_NEXT :: int where "PCI_CAP_LIST_NEXT = 1"
definition PCI_CAP_ID_EXP :: "8 word" where "PCI_CAP_ID_EXP = 0x10"
definition PCI_EXP_DEVSTA :: int where "PCI_EXP_DEVSTA = 10"
definition PCI_EXP_DEVSTA_CED :: "32 word" where "PCI_EXP_DEVSTA_CED = 0x0001"
definition PCI_EXP_DEVSTA_NFED :: "32 word" where "PCI_EXP_DEVSTA_NFED = 0x0002"
definition PCI_EXP_DEVSTA_FED :: "32 word" where "PCI_EXP_DEVSTA_FED = 0x0004"
definition PCI_EXP_DEVSTA_URD :: "32 word" where "PCI_EXP_DEVSTA_URD = 0x0008"
definition PCI_EXT_CAP_ID_ERR :: "32 word" where "PCI_EXT_CAP_ID_ERR = 0x01"
definition PCI_EXT_CAP_ID :: "32 word \<Rightarrow> 32 word" where
  "PCI_EXT_CAP_ID header = header AND 0x0000ffff"
definition PCI_EXT_CAP_NEXT :: "32 word \<Rightarrow> 32 word" where
  "PCI_EXT_CAP_NEXT header = drop_bit 20 header AND 0xffc"
definition PCI_ERR_UNCOR_STATUS :: int where "PCI_ERR_UNCOR_STATUS = 4"
definition PCI_ERR_UNCOR_MASK :: int where "PCI_ERR_UNCOR_MASK = 8"
definition PCI_ERR_UNCOR_SEVER :: int where "PCI_ERR_UNCOR_SEVER = 12"
definition PCI_ERR_COR_STATUS :: int where "PCI_ERR_COR_STATUS = 16"
definition PCI_ERR_COR_MASK :: int where "PCI_ERR_COR_MASK = 20"

definition PCI_ERR_UNC_DLP :: "32 word" where "PCI_ERR_UNC_DLP = 0x00000010"
definition PCI_ERR_UNC_SURPDN :: "32 word" where "PCI_ERR_UNC_SURPDN = 0x00000020"
definition PCI_ERR_UNC_POISON_TLP :: "32 word" where "PCI_ERR_UNC_POISON_TLP = 0x00001000"
definition PCI_ERR_UNC_FCP :: "32 word" where "PCI_ERR_UNC_FCP = 0x00002000"
definition PCI_ERR_UNC_COMP_TIME :: "32 word" where "PCI_ERR_UNC_COMP_TIME = 0x00004000"
definition PCI_ERR_UNC_COMP_ABORT :: "32 word" where "PCI_ERR_UNC_COMP_ABORT = 0x00008000"
definition PCI_ERR_UNC_UNX_COMP :: "32 word" where "PCI_ERR_UNC_UNX_COMP = 0x00010000"
definition PCI_ERR_UNC_RX_OVER :: "32 word" where "PCI_ERR_UNC_RX_OVER = 0x00020000"
definition PCI_ERR_UNC_MALF_TLP :: "32 word" where "PCI_ERR_UNC_MALF_TLP = 0x00040000"
definition PCI_ERR_UNC_ECRC :: "32 word" where "PCI_ERR_UNC_ECRC = 0x00080000"
definition PCI_ERR_UNC_UNSUP :: "32 word" where "PCI_ERR_UNC_UNSUP = 0x00100000"
definition PCI_ERR_UNC_ACSV :: "32 word" where "PCI_ERR_UNC_ACSV = 0x00200000"
definition PCI_ERR_UNC_INTN :: "32 word" where "PCI_ERR_UNC_INTN = 0x00400000"
definition PCI_ERR_UNC_MCBTLP :: "32 word" where "PCI_ERR_UNC_MCBTLP = 0x00800000"
definition PCI_ERR_UNC_ATOMEG :: "32 word" where "PCI_ERR_UNC_ATOMEG = 0x01000000"
definition PCI_ERR_UNC_TLPPRE :: "32 word" where "PCI_ERR_UNC_TLPPRE = 0x02000000"

definition PCI_ERR_COR_RCVR :: "32 word" where "PCI_ERR_COR_RCVR = 0x00000001"
definition PCI_ERR_COR_BAD_TLP :: "32 word" where "PCI_ERR_COR_BAD_TLP = 0x00000040"
definition PCI_ERR_COR_BAD_DLLP :: "32 word" where "PCI_ERR_COR_BAD_DLLP = 0x00000080"
definition PCI_ERR_COR_REP_ROLL :: "32 word" where "PCI_ERR_COR_REP_ROLL = 0x00000100"
definition PCI_ERR_COR_REP_TIMER :: "32 word" where "PCI_ERR_COR_REP_TIMER = 0x00001000"
definition PCI_ERR_COR_ADV_NFAT :: "32 word" where "PCI_ERR_COR_ADV_NFAT = 0x00002000"
definition PCI_ERR_COR_INTERNAL :: "32 word" where "PCI_ERR_COR_INTERNAL = 0x00004000"
definition PCI_ERR_COR_LOG_OVER :: "32 word" where "PCI_ERR_COR_LOG_OVER = 0x00008000"

text \<open>
  Modelled from the spec: \<^verbatim>\<open>DATA_MAX_NAME_LEN\<close>, the size of the name buffers of
  \<^verbatim>\<open>notification_t\<close>, is declared in the daemon's plugin.h, which is not under src/. The
  spec gives the fields as strings and no size; the size is written here so that
  \<^verbatim>\<open>sstrncpy\<close> can be modelled, and every fixed name copied below is shorter.
\<close>

definition DATA_MAX_NAME_LEN :: nat where "DATA_MAX_NAME_LEN = 128"

section \<open>The three error catalogs\<close>

definition pcie_base_errors :: "pcie_error list" where
  "pcie_base_errors =
    [\<lparr>mask_err = PCI_EXP_DEVSTA_CED, desc = ''Correctable Error''\<rparr>,
     \<lparr>mask_err = PCI_EXP_DEVSTA_NFED, desc = ''Non-Fatal Error''\<rparr>,
     \<lparr>mask_err = PCI_EXP_DEVSTA_FED, desc = ''Fatal Error''\<rparr>,
     \<lparr>mask_err = PCI_EXP_DEVSTA_URD, desc = ''Unsupported Request''\<rparr>]"

definition pcie_aer_ues :: "pcie_error list" where
  "pcie_aer_ues =
    [\<lparr>mask_err = PCI_ERR_UNC_DLP, desc = ''Data Link Protocol''\<rparr>,
     \<lparr>mask_err = PCI_ERR_UNC_SURPDN, desc = ''Surprise Down''\<rparr>,
     \<lparr>mask_err = PCI_ERR_UNC_POISON_TLP, desc = ''Poisoned TLP''\<rparr>,
     \<lparr>mask_err = PCI_ERR_UNC_FCP, desc = ''Flow Control Protocol''\<rparr>,
     \<lparr>mask_err = PCI_ERR_UNC_COMP_TIME, desc = ''Completion Timeout''\<rparr>,
     \<lparr>mask_err = PCI_ERR_UNC_COMP_ABORT, desc = ''Completer Abort''\<rparr>,
     \<lparr>mask_err = PCI_ERR_UNC_UNX_COMP, desc = ''Unexpected Completion''\<rparr>,
     \<lparr>mask_err = PCI_ERR_UNC_RX_OVER, desc = ''Receiver Overflow''\<rparr>,
     \<lparr>mask_err = PCI_ERR_UNC_MALF_TLP, desc = ''Malformed TLP''\<rparr>,
     \<lparr>mask_err = PCI_ERR_UNC_ECRC, desc = ''ECRC Error Status''\<rparr>,
     \<lparr>mask_err = PCI_ERR_UNC_UNSUP, desc = ''Unsupported Request''\<rparr>,
     \<lparr>mask_err = PCI_ERR_UNC_ACSV, desc = ''ACS Violation''\<rparr>,
     \<lparr>mask_err = PCI_ERR_UNC_INTN, desc = ''Internal''\<rparr>,
     \<lparr>mask_err = PCI_ERR_UNC_MCBTLP, desc = ''MC blocked TLP''\<rparr>,
     \<lparr>mask_err = PCI_ERR_UNC_ATOMEG, desc = ''Atomic egress blocked''\<rparr>,
     \<lparr>mask_err = PCI_ERR_UNC_TLPPRE, desc = ''TLP prefix blocked''\<rparr>]"

definition pcie_aer_ces :: "pcie_error list" where
  "pcie_aer_ces =
    [\<lparr>mask_err = PCI_ERR_COR_RCVR, desc = ''Receiver Error Status''\<rparr>,
     \<lparr>mask_err = PCI_ERR_COR_BAD_TLP, desc = ''Bad TLP Status''\<rparr>,
     \<lparr>mask_err = PCI_ERR_COR_BAD_DLLP, desc = ''Bad DLLP Status''\<rparr>,
     \<lparr>mask_err = PCI_ERR_COR_REP_ROLL, desc = ''REPLAY_NUM Rollover''\<rparr>,
     \<lparr>mask_err = PCI_ERR_COR_REP_TIMER, desc = ''Replay Timer Timeout''\<rparr>,
     \<lparr>mask_err = PCI_ERR_COR_ADV_NFAT, desc = ''Advisory Non-Fatal''\<rparr>,
     \<lparr>mask_err = PCI_ERR_COR_INTERNAL, desc = ''Corrected Internal''\<rparr>,
     \<lparr>mask_err = PCI_ERR_COR_LOG_OVER, desc = ''Header Log Overflow''\<rparr>]"

section \<open>Register accessor\<close>

text \<open>
  \<^verbatim>\<open>pcie_read\<close>: success only when \<^verbatim>\<open>pread\<close> delivers exactly \<open>sz\<close> bytes; a short read
  and an I/O error both fail.
\<close>

definition pcie_read :: "pcie_file \<Rightarrow> nat \<Rightarrow> int \<Rightarrow> 8 word list option" where
  "pcie_read f sz pos =
    (case f sz pos of
       None \<Rightarrow> None
     | Some bs \<Rightarrow> if length bs = sz then Some bs else None)"

text \<open>
  The 8/16/32-bit reads return 0 when \<^verbatim>\<open>pcie_read\<close> fails. The bytes are assembled in
  host order, little-endian as configuration space is on the platforms the plugin reads.
\<close>

definition pcie_read8 :: "pcie_file \<Rightarrow> int \<Rightarrow> 8 word" where
  "pcie_read8 f pos = (case pcie_read f 1 pos of Some [b0] \<Rightarrow> b0 | _ \<Rightarrow> 0)"

definition pcie_read16 :: "pcie_file \<Rightarrow> int \<Rightarrow> 16 word" where
  "pcie_read16 f pos =
    (case pcie_read f 2 pos of
       Some [b0, b1] \<Rightarrow> ucast b0 OR push_bit 8 (ucast b1)
     | _ \<Rightarrow> 0)"

definition pcie_read32 :: "pcie_file \<Rightarrow> int \<Rightarrow> 32 word" where
  "pcie_read32 f pos =
    (case pcie_read f 4 pos of
       Some [b0, b1, b2, b3] \<Rightarrow>
         ucast b0 OR push_bit 8 (ucast b1) OR push_bit 16 (ucast b2) OR push_bit 24 (ucast b3)
     | _ \<Rightarrow> 0)"

section \<open>Dispatching notifications\<close>

text \<open>\<^verbatim>\<open>sstrncpy(dest, src, n)\<close>: at most \<open>n - 1\<close> characters are kept.\<close>

definition sstrncpy :: "string \<Rightarrow> nat \<Rightarrow> string" where
  "sstrncpy src n = take (n - 1) src"

text \<open>
  The \<^verbatim>\<open>printf\<close> conversions \<^verbatim>\<open>%0wx\<close> (of a value below \<open>2^32\<close>: at most eight
  hexadecimal digits, leading zeros dropped, then padded to \<open>w\<close>) and \<^verbatim>\<open>%d\<close> (of a byte).
\<close>

definition hex_digit :: "nat \<Rightarrow> char" where
  "hex_digit d = ''0123456789abcdef'' ! d"

fun hex_digits :: "nat \<Rightarrow> nat \<Rightarrow> string" where
  "hex_digits 0 n = []"
| "hex_digits (Suc k) n = hex_digits k (n div 16) @ [hex_digit (n mod 16)]"

definition fmt_hex :: "nat \<Rightarrow> nat \<Rightarrow> string" where
  "fmt_hex w n =
    (let ds = dropWhile (\<lambda>c. c = CHR ''0'') (hex_digits 8 n)
     in replicate (w - length ds) (CHR ''0'') @ ds)"

definition fmt_dec :: "nat \<Rightarrow> string" where
  "fmt_dec n =
    dropWhile (\<lambda>c. c = CHR ''0'') [hex_digit (n div 100 mod 10), hex_digit (n div 10 mod 10)]
      @ [hex_digit (n mod 10)]"

text \<open>The device name \<^verbatim>\<open>"%04x:%02x:%02x.%d"\<close> printed into \<^verbatim>\<open>plugin_instance\<close>.\<close>

definition pcie_dev_name :: "pcie_device \<Rightarrow> string" where
  "pcie_dev_name dev =
    fmt_hex 4 (unat (domain dev)) @ '':'' @ fmt_hex 2 (unat (bus dev)) @ '':'' @
    fmt_hex 2 (unat (device dev)) @ ''.'' @ fmt_dec (unat (fn dev))"

text \<open>
  \<^verbatim>\<open>pcie_dispatch_notification\<close> followed by \<^verbatim>\<open>pcie_do_dispatch_notification\<close>: the value
  is the notification handed to \<^verbatim>\<open>plugin_dispatch_notification\<close>. The device name has at
  most 18 characters, so printing it into the name buffer never truncates.
\<close>

definition pcie_do_dispatch_notification :: "notification \<Rightarrow> string \<Rightarrow> notification" where
  "pcie_do_dispatch_notification n ty = n\<lparr>type := sstrncpy ty DATA_MAX_NAME_LEN\<rparr>"

definition pcie_dispatch_notification ::
    "pcie_device \<Rightarrow> notification \<Rightarrow> string \<Rightarrow> string \<Rightarrow> notification" where
  "pcie_dispatch_notification dev n ty ti =
    pcie_do_dispatch_notification
      (n\<lparr>plugin_instance := pcie_dev_name dev,
         type_instance := sstrncpy ti DATA_MAX_NAME_LEN\<rparr>) ty"

text \<open>The zero-initialised \<^verbatim>\<open>notification_t\<close> with severity and plugin name filled in.\<close>

definition notif_init :: "notif_severity \<Rightarrow> notification" where
  "notif_init sev =
    \<lparr>severity = sev, message = [], plugin = PCIE_ERRORS_PLUGIN, plugin_instance = [],
     type = [], type_instance = [], meta = []\<rparr>"

section \<open>Error state tracker\<close>

text \<open>
  \<^verbatim>\<open>pcie_dispatch_correctable_errors\<close>: the loop over the catalog, one equation per
  iteration; the result lists the notifications dispatched, in order. The longest
  message built from a catalog entry has fewer than 70 characters, far below the message
  buffer, so the formatted message is the plain concatenation.
\<close>

fun pcie_dispatch_correctable_errors_loop ::
    "pcie_config \<Rightarrow> pcie_device \<Rightarrow> 32 word \<Rightarrow> 32 word \<Rightarrow> pcie_error list \<Rightarrow> notification list" where
  "pcie_dispatch_correctable_errors_loop cfg dev errors masked [] = []"
| "pcie_dispatch_correctable_errors_loop cfg dev errors masked (err # errs) =
    (let n = notif_init NOTIF_WARNING;
         rest = pcie_dispatch_correctable_errors_loop cfg dev errors masked errs
     in if \<not> notif_masked cfg \<and> mask_err err AND masked \<noteq> 0 then rest
        else if mask_err err AND errors \<noteq> 0 then
          (if \<not> persistent cfg \<and> mask_err err AND correctable_errors dev \<noteq> 0 then rest
           else pcie_dispatch_notification dev
                  (n\<lparr>message := ''Correctable Error set: '' @ desc err\<rparr>)
                  PCIE_ERROR PCIE_SEV_CE # rest)
        else if mask_err err AND correctable_errors dev \<noteq> 0 then
          pcie_dispatch_notification dev
            (n\<lparr>severity := NOTIF_OKAY,
               message := ''Correctable Error cleared: '' @ desc err\<rparr>)
            PCIE_ERROR PCIE_SEV_CE # rest
        else rest)"

definition pcie_dispatch_correctable_errors ::
    "pcie_config \<Rightarrow> pcie_device \<Rightarrow> 32 word \<Rightarrow> 32 word \<Rightarrow> notification list" where
  "pcie_dispatch_correctable_errors cfg dev errors masked =
    pcie_dispatch_correctable_errors_loop cfg dev errors masked pcie_aer_ces"

text \<open>
  \<^verbatim>\<open>pcie_dispatch_uncorrectable_errors\<close>. The initialiser of the notification names no
  severity; it is assigned on both dispatching branches.
\<close>

fun pcie_dispatch_uncorrectable_errors_loop ::
    "pcie_config \<Rightarrow> pcie_device \<Rightarrow> 32 word \<Rightarrow> 32 word \<Rightarrow> 32 word \<Rightarrow> pcie_error list
      \<Rightarrow> notification list" where
  "pcie_dispatch_uncorrectable_errors_loop cfg dev errors masked sever [] = []"
| "pcie_dispatch_uncorrectable_errors_loop cfg dev errors masked sever (err # errs) =
    (let type_inst = (if sever AND mask_err err \<noteq> 0 then PCIE_SEV_FATAL else PCIE_SEV_NOFATAL);
         n = notif_init NOTIF_UNSET;
         rest = pcie_dispatch_uncorrectable_errors_loop cfg dev errors masked sever errs
     in if \<not> notif_masked cfg \<and> mask_err err AND masked \<noteq> 0 then rest
        else if mask_err err AND errors \<noteq> 0 then
          (if \<not> persistent cfg \<and> mask_err err AND uncorrectable_errors dev \<noteq> 0 then rest
           else pcie_dispatch_notification dev
                  (n\<lparr>severity :=
                       (if sever AND mask_err err \<noteq> 0 then NOTIF_FAILURE else NOTIF_WARNING),
                     message := ''Uncorrectable('' @ type_inst @ '') Error set: '' @ desc err\<rparr>)
                  PCIE_ERROR type_inst # rest)
        else if mask_err err AND uncorrectable_errors dev \<noteq> 0 then
          pcie_dispatch_notification dev
            (n\<lparr>severity := NOTIF_OKAY,
               message := ''Uncorrectable('' @ type_inst @ '') Error cleared: '' @ desc err\<rparr>)
            PCIE_ERROR type_inst # rest
        else rest)"

definition pcie_dispatch_uncorrectable_errors ::
    "pcie_config \<Rightarrow> pcie_device \<Rightarrow> 32 word \<Rightarrow> 32 word \<Rightarrow> 32 word \<Rightarrow> notification list" where
  "pcie_dispatch_uncorrectable_errors cfg dev errors masked sever =
    pcie_dispatch_uncorrectable_errors_loop cfg dev errors masked sever pcie_aer_ues"

text \<open>
  \<^verbatim>\<open>pcie_check_dev_status\<close>: the loop over \<^verbatim>\<open>pcie_base_errors\<close>, then the function. The
  catalog masks are ints and the status values 16-bit; the comparisons are made at 32
  bits, as the integer promotions of C do.
\<close>

fun pcie_check_dev_status_loop ::
    "pcie_config \<Rightarrow> pcie_device \<Rightarrow> 16 word \<Rightarrow> pcie_error list \<Rightarrow> notification list" where
  "pcie_check_dev_status_loop cfg dev new_status [] = []"
| "pcie_check_dev_status_loop cfg dev new_status (err # errs) =
    (let type_inst =
           (if mask_err err = PCI_EXP_DEVSTA_FED then PCIE_SEV_FATAL
            else if mask_err err = PCI_EXP_DEVSTA_CED then PCIE_SEV_CE
            else PCIE_SEV_NOFATAL);
         sev = (if mask_err err = PCI_EXP_DEVSTA_FED then NOTIF_FAILURE else NOTIF_WARNING);
         n = notif_init sev;
         rest = pcie_check_dev_status_loop cfg dev new_status errs
     in if mask_err err AND ucast new_status \<noteq> 0 then
          (if \<not> persistent cfg \<and> mask_err err AND ucast (device_status dev) \<noteq> 0 then rest
           else pcie_dispatch_notification dev
                  (n\<lparr>message := ''Device Status Error set: '' @ desc err\<rparr>)
                  PCIE_ERROR type_inst # rest)
        else if mask_err err AND ucast (device_status dev) \<noteq> 0 then
          pcie_dispatch_notification dev
            (n\<lparr>severity := NOTIF_OKAY,
               message := ''Device Status Error cleared: '' @ desc err\<rparr>)
            PCIE_ERROR type_inst # rest
        else rest)"

definition pcie_check_dev_status ::
    "pcie_config \<Rightarrow> pcie_file \<Rightarrow> pcie_device \<Rightarrow> int \<Rightarrow> notification list \<times> pcie_device" where
  "pcie_check_dev_status cfg f dev pos =
    (let new_status = pcie_read16 f (pos + PCI_EXP_DEVSTA) AND 0xf
     in if \<not> (persistent cfg \<and> new_status \<noteq> 0) \<and> new_status = device_status dev
        then ([], dev)
        else (pcie_check_dev_status_loop cfg dev new_status pcie_base_errors,
              dev\<lparr>device_status := new_status\<rparr>))"

text \<open>
  \<^verbatim>\<open>pcie_check_aer\<close>: the uncorrectable block, then the correctable block; each baseline
  is overwritten whether or not its block dispatched.
\<close>

definition pcie_check_aer ::
    "pcie_config \<Rightarrow> pcie_file \<Rightarrow> pcie_device \<Rightarrow> int \<Rightarrow> notification list \<times> pcie_device" where
  "pcie_check_aer cfg f dev pos =
    (let errors = pcie_read32 f (pos + PCI_ERR_UNCOR_STATUS);
         ns1 = (if (persistent cfg \<and> errors \<noteq> 0) \<or> errors \<noteq> uncorrectable_errors dev
                then (let masked = pcie_read32 f (pos + PCI_ERR_UNCOR_MASK);
                          sever = pcie_read32 f (pos + PCI_ERR_UNCOR_SEVER)
                      in pcie_dispatch_uncorrectable_errors cfg dev errors masked sever)
                else []);
         dev1 = dev\<lparr>uncorrectable_errors := errors\<rparr>;
         errors2 = pcie_read32 f (pos + PCI_ERR_COR_STATUS);
         ns2 = (if (persistent cfg \<and> errors2 \<noteq> 0) \<or> errors2 \<noteq> correctable_errors dev1
                then (let masked = pcie_read32 f (pos + PCI_ERR_COR_MASK)
                      in pcie_dispatch_correctable_errors cfg dev1 errors2 masked)
                else []);
         dev2 = dev1\<lparr>correctable_errors := errors2\<rparr>
     in (ns1 @ ns2, dev2))"

text \<open>
  \<^verbatim>\<open>pcie_process_devices\<close>. \<open>pcie_process_dev\<close> is the body of its loop for one list
  entry: the notifications dispatched, the device as it is left, and whether the open
  failed (the body then sets \<^verbatim>\<open>ret = -1\<close>). The registry pointer may be \<^verbatim>\<open>NULL\<close>
  (\<open>None\<close>), which returns \<open>-1\<close> at once.
\<close>

definition pcie_process_dev ::
    "pcie_config \<Rightarrow> pcie_fops \<Rightarrow> pcie_device \<Rightarrow> bool \<times> notification list \<times> pcie_device" where
  "pcie_process_dev cfg fops dev =
    (case fops_open fops (pcie_dev_addr dev) of
       Some f \<Rightarrow>
         (let (ns1, dev1) = pcie_check_dev_status cfg f dev (cap_exp dev);
              (ns2, dev2) = (if ecap_aer dev1 \<noteq> - 1 then pcie_check_aer cfg f dev1 (ecap_aer dev1)
                             else ([], dev1))
          in (False, ns1 @ ns2, dev2))
     | None \<Rightarrow>
         (True,
          [pcie_dispatch_notification dev
             ((notif_init NOTIF_FAILURE)\<lparr>message := ''Failed to read device status''\<rparr>) [] []],
          dev))"

fun pcie_process_devices_loop ::
    "pcie_config \<Rightarrow> pcie_fops \<Rightarrow> pcie_device list \<Rightarrow> int \<Rightarrow> int \<times> notification list \<times> pcie_device list" where
  "pcie_process_devices_loop cfg fops [] ret = (ret, [], [])"
| "pcie_process_devices_loop cfg fops (dev # devs) ret =
    (let (failed, ns, dev') = pcie_process_dev cfg fops dev;
         (ret', ns', devs') = pcie_process_devices_loop cfg fops devs (if failed then - 1 else ret)
     in (ret', ns @ ns', dev' # devs'))"

definition pcie_process_devices ::
    "pcie_config \<Rightarrow> pcie_fops \<Rightarrow> pcie_device list option
      \<Rightarrow> int \<times> notification list \<times> pcie_device list option" where
  "pcie_process_devices cfg fops devs =
    (case devs of
       None \<Rightarrow> (- 1, [], None)
     | Some ds \<Rightarrow>
         (let (ret, ns, ds') = pcie_process_devices_loop cfg fops ds 0 in (ret, ns, Some ds')))"

section \<open>Capability walker\<close>

text \<open>
  \<^verbatim>\<open>pcie_find_cap_exp\<close>. The \<^verbatim>\<open>while (pos)\<close> loop follows next pointers with no bound on
  the number of entries, so it is a partial function: \<open>None\<close> stands for a walk that
  never returns. \<open>Some (- 1)\<close> is the "not found" return. A byte promoted to int and
  masked with \<^verbatim>\<open>~3\<close> keeps bits 2 to 7.
\<close>

partial_function (option) pcie_find_cap_exp_loop :: "pcie_file \<Rightarrow> int \<Rightarrow> int option" where
  "pcie_find_cap_exp_loop f pos =
    (if pos \<noteq> 0 then
       (if pcie_read8 f (pos + PCI_CAP_LIST_ID) = 0xff then Some (- 1)
        else if pcie_read8 f (pos + PCI_CAP_LIST_ID) = PCI_CAP_ID_EXP then Some pos
        else pcie_find_cap_exp_loop f (uint (pcie_read8 f (pos + PCI_CAP_LIST_NEXT) AND NOT 3)))
     else Some (- 1))"

declare pcie_find_cap_exp_loop.simps [code]

definition pcie_find_cap_exp :: "pcie_file \<Rightarrow> int option" where
  "pcie_find_cap_exp f =
    pcie_find_cap_exp_loop f (uint (pcie_read8 f PCI_CAPABILITY_LIST AND NOT 3))"

text \<open>
  The same loop cut off after \<open>n\<close> entries have been examined (\<open>None\<close>: cut off). It is
  used to say when the walk returns.
\<close>

fun pcie_find_cap_exp_fuel :: "nat \<Rightarrow> pcie_file \<Rightarrow> int \<Rightarrow> int option" where
  "pcie_find_cap_exp_fuel 0 f pos = (if pos \<noteq> 0 then None else Some (- 1))"
| "pcie_find_cap_exp_fuel (Suc n) f pos =
    (if pos \<noteq> 0 then
       (if pcie_read8 f (pos + PCI_CAP_LIST_ID) = 0xff then Some (- 1)
        else if pcie_read8 f (pos + PCI_CAP_LIST_ID) = PCI_CAP_ID_EXP then Some pos
        else pcie_find_cap_exp_fuel n f (uint (pcie_read8 f (pos + PCI_CAP_LIST_NEXT) AND NOT 3)))
     else Some (- 1))"

text \<open>\<^verbatim>\<open>pcie_find_ecap_aer\<close>: the header at 0x100, then the \<^verbatim>\<open>while (next)\<close> loop.\<close>

partial_function (option) pcie_find_ecap_aer_loop :: "pcie_file \<Rightarrow> int \<Rightarrow> int option" where
  "pcie_find_ecap_aer_loop f nxt =
    (if nxt \<noteq> 0 then
       (if nxt \<le> PCIE_ECAP_OFFSET then Some (- 1)
        else if PCI_EXT_CAP_ID (pcie_read32 f nxt) = PCI_EXT_CAP_ID_ERR then Some nxt
        else pcie_find_ecap_aer_loop f (uint (PCI_EXT_CAP_NEXT (pcie_read32 f nxt))))
     else Some (- 1))"

declare pcie_find_ecap_aer_loop.simps [code]

definition pcie_find_ecap_aer :: "pcie_file \<Rightarrow> int option" where
  "pcie_find_ecap_aer f =
    (let pos = PCIE_ECAP_OFFSET;
         header = pcie_read32 f pos;
         cid = PCI_EXT_CAP_ID header;
         nxt = PCI_EXT_CAP_NEXT header
     in if cid = 0 \<and> nxt = 0 then Some (- 1)
        else if cid = PCI_EXT_CAP_ID_ERR then Some pos
        else pcie_find_ecap_aer_loop f (uint nxt))"

section \<open>Device registry\<close>

text \<open>
  \<^verbatim>\<open>pcie_add_device\<close>: the zeroed record with the address filled in and both offsets set
  to \<open>-1\<close>, appended to the list (the allocation is taken to succeed).
\<close>

definition pcie_add_device ::
    "pcie_device list \<Rightarrow> 32 word \<Rightarrow> 8 word \<Rightarrow> 8 word \<Rightarrow> 8 word \<Rightarrow> pcie_device list" where
  "pcie_add_device list dm b d f =
    list @ [\<lparr>domain = dm, bus = b, device = d, fn = f, cap_exp = - 1, ecap_aer = - 1,
             device_status = 0, correctable_errors = 0, uncorrectable_errors = 0\<rparr>]"

text \<open>
  The registry as \<^verbatim>\<open>pcie_list_devices_proc\<close> or \<^verbatim>\<open>pcie_list_devices_sysfs\<close> builds
  it: one call of \<^verbatim>\<open>pcie_add_device\<close> for every address found, in the order found.
\<close>

definition pcie_add_devices :: "pcie_addr list \<Rightarrow> pcie_device list" where
  "pcie_add_devices addrs = foldl (\<lambda>l (dm, b, d, f). pcie_add_device l dm b d f) [] addrs"

text \<open>
  \<^verbatim>\<open>pcie_preprocess_devices\<close>. \<open>pcie_preprocess_dev\<close> is the loop body for one entry:
  \<open>Some None\<close> when the entry is deleted, \<open>Some (Some dev')\<close> when it is kept, and \<open>None\<close>
  when one of the two walks does not return.
\<close>

definition pcie_preprocess_dev :: "pcie_fops \<Rightarrow> pcie_device \<Rightarrow> pcie_device option option" where
  "pcie_preprocess_dev fops dev =
    (case fops_open fops (pcie_dev_addr dev) of
       Some f \<Rightarrow>
         (case (if pcie_read16 f PCI_STATUS AND PCI_STATUS_CAP_LIST \<noteq> 0
                then pcie_find_cap_exp f else Some (cap_exp dev)) of
            None \<Rightarrow> None
          | Some cap \<Rightarrow>
              if cap = - 1 then Some None
              else (case pcie_find_ecap_aer f of
                      None \<Rightarrow> None
                    | Some aer \<Rightarrow> Some (Some (dev\<lparr>cap_exp := cap, ecap_aer := aer\<rparr>))))
     | None \<Rightarrow> Some None)"

fun pcie_preprocess_devices_loop :: "pcie_fops \<Rightarrow> pcie_device list \<Rightarrow> pcie_device list option" where
  "pcie_preprocess_devices_loop fops [] = Some []"
| "pcie_preprocess_devices_loop fops (dev # devs) =
    (case pcie_preprocess_dev fops dev of
       None \<Rightarrow> None
     | Some r \<Rightarrow>
         (case pcie_preprocess_devices_loop fops devs of
            None \<Rightarrow> None
          | Some devs' \<Rightarrow> Some (case r of None \<Rightarrow> devs' | Some dev' \<Rightarrow> dev' # devs')))"

definition pcie_preprocess_devices ::
    "pcie_fops \<Rightarrow> pcie_device list option \<Rightarrow> pcie_device list option option" where
  "pcie_preprocess_devices fops devs =
    (case devs of
       None \<Rightarrow> Some None
     | Some ds \<Rightarrow> map_option Some (pcie_preprocess_devices_loop fops ds))"

section \<open>Log extraction pipeline\<close>

text \<open>
  One \<^verbatim>\<open>message_item\<close> (\<^verbatim>\<open>name\<close>, \<^verbatim>\<open>value\<close>) and the \<^verbatim>\<open>message\<close> holding the item array.
  An unused entry of the array has an empty name and an empty value.
\<close>

record message_item =
  item_name :: string
  item_value :: string

record parser_message =
  message_items :: "message_item list"

text \<open>
  The C library's \<^verbatim>\<open>fnmatch(pattern, string, 0)\<close> for a pattern of the shape
  \<^verbatim>\<open>*c1c2...ck*\<close>, every \<open>ci\<close> a character or a bracket expression: the string matches
  when some substring of length \<open>k\<close> matches position by position. A pattern is the list
  of the character sets at the \<open>k\<close> positions.
\<close>

fun fnmatch_here :: "string list \<Rightarrow> string \<Rightarrow> bool" where
  "fnmatch_here [] s = True"
| "fnmatch_here (cs # pat) [] = False"
| "fnmatch_here (cs # pat) (c # s) = (c \<in> set cs \<and> fnmatch_here pat s)"

fun fnmatch_star :: "string list \<Rightarrow> string \<Rightarrow> bool" where
  "fnmatch_star pat [] = fnmatch_here pat []"
| "fnmatch_star pat (c # s) = (fnmatch_here pat (c # s) \<or> fnmatch_star pat s)"

text \<open>The two patterns \<^verbatim>\<open>"*[nN]on-[fF]atal*"\<close> and \<^verbatim>\<open>"*[fF]atal*"\<close>.\<close>

definition pat_non_fatal :: "string list" where
  "pat_non_fatal = [''nN'', ''o'', ''n'', ''-'', ''fF'', ''a'', ''t'', ''a'', ''l'']"

definition pat_fatal :: "string list" where
  "pat_fatal = [''fF'', ''a'', ''t'', ''a'', ''l'']"

text \<open>
  Modelled from the spec: \<^verbatim>\<open>plugin_notification_meta_add_string\<close> belongs to the daemon
  core, which is not under src/. Following the spec ("all other fields become metadata
  key/value pairs on the event"), it appends the pair to the notification's metadata;
  its failure return (out of memory) is not represented.
\<close>

definition plugin_notification_meta_add_string ::
    "notification \<Rightarrow> string \<Rightarrow> string \<Rightarrow> notification" where
  "plugin_notification_meta_add_string n name val = n\<lparr>meta := meta n @ [(name, val)]\<rparr>"

text \<open>
  \<^verbatim>\<open>pcie_parse_msg\<close>: the loop over the items, left at the first item whose value is
  empty, then the message text and the dispatch. \<^verbatim>\<open>strncmp(name, K, strlen(K)) == 0\<close>
  holds when \<open>K\<close> is a prefix of the name. The caller passes the size of the item array as
  \<^verbatim>\<open>max_items\<close>.
\<close>

fun pcie_parse_msg_loop :: "message_item list \<Rightarrow> notification \<Rightarrow> notification" where
  "pcie_parse_msg_loop [] n = n"
| "pcie_parse_msg_loop (item # items) n =
    (if item_value item = [] then n
     else pcie_parse_msg_loop items
       (if take (length PCIE_LOG_SEVERITY) (item_name item) = PCIE_LOG_SEVERITY then
          (if fnmatch_star pat_non_fatal (item_value item) then
             n\<lparr>type_instance := sstrncpy PCIE_SEV_NOFATAL DATA_MAX_NAME_LEN\<rparr>
           else if fnmatch_star pat_fatal (item_value item) then
             n\<lparr>severity := NOTIF_FAILURE,
               type_instance := sstrncpy PCIE_SEV_FATAL DATA_MAX_NAME_LEN\<rparr>
           else n\<lparr>type_instance := sstrncpy PCIE_SEV_CE DATA_MAX_NAME_LEN\<rparr>)
        else if take (length PCIE_LOG_DEV) (item_name item) = PCIE_LOG_DEV then
          n\<lparr>plugin_instance := sstrncpy (item_value item) DATA_MAX_NAME_LEN\<rparr>
        else plugin_notification_meta_add_string n (item_name item) (item_value item)))"

definition pcie_parse_msg :: "parser_message \<Rightarrow> nat \<Rightarrow> notification" where
  "pcie_parse_msg msg max_items =
    (let n = pcie_parse_msg_loop (take max_items (message_items msg)) (notif_init NOTIF_WARNING)
     in pcie_do_dispatch_notification
          (n\<lparr>message := ''AER '' @ type_instance n @ '' error reported in log''\<rparr>) PCIE_ERROR)"

section \<open>Terms in which the properties are stated\<close>

text \<open>
  A notification of the register path for a device: everything but severity, message
  and type instance is fixed.
\<close>

definition pcie_event :: "pcie_device \<Rightarrow> notif_severity \<Rightarrow> string \<Rightarrow> string \<Rightarrow> notification" where
  "pcie_event dev sev msg ti =
    \<lparr>severity = sev, message = msg, plugin = ''pcie_errors'',
     plugin_instance = pcie_dev_name dev, type = ''pcie_error'', type_instance = ti,
     meta = []\<rparr>"

text \<open>
  The notifications about one catalog entry are recognised by their message text: the
  "set" and the "cleared" notification of an entry of each catalog.
\<close>

definition base_set_event :: "pcie_error \<Rightarrow> notification \<Rightarrow> bool" where
  "base_set_event e n \<longleftrightarrow> message n = ''Device Status Error set: '' @ desc e"

definition base_cleared_event :: "pcie_error \<Rightarrow> notification \<Rightarrow> bool" where
  "base_cleared_event e n \<longleftrightarrow> message n = ''Device Status Error cleared: '' @ desc e"

definition base_event :: "pcie_error \<Rightarrow> notification \<Rightarrow> bool" where
  "base_event e n \<longleftrightarrow> base_set_event e n \<or> base_cleared_event e n"

definition unc_set_event :: "pcie_error \<Rightarrow> notification \<Rightarrow> bool" where
  "unc_set_event e n \<longleftrightarrow>
     message n = ''Uncorrectable(fatal) Error set: '' @ desc e \<or>
     message n = ''Uncorrectable(non_fatal) Error set: '' @ desc e"

definition unc_cleared_event :: "pcie_error \<Rightarrow> notification \<Rightarrow> bool" where
  "unc_cleared_event e n \<longleftrightarrow>
     message n = ''Uncorrectable(fatal) Error cleared: '' @ desc e \<or>
     message n = ''Uncorrectable(non_fatal) Error cleared: '' @ desc e"

definition unc_event :: "pcie_error \<Rightarrow> notification \<Rightarrow> bool" where
  "unc_event e n \<longleftrightarrow> unc_set_event e n \<or> unc_cleared_event e n"

definition cor_set_event :: "pcie_error \<Rightarrow> notification \<Rightarrow> bool" where
  "cor_set_event e n \<longleftrightarrow> message n = ''Correctable Error set: '' @ desc e"

definition cor_cleared_event :: "pcie_error \<Rightarrow> notification \<Rightarrow> bool" where
  "cor_cleared_event e n \<longleftrightarrow> message n = ''Correctable Error cleared: '' @ desc e"

definition cor_event :: "pcie_error \<Rightarrow> notification \<Rightarrow> bool" where
  "cor_event e n \<longleftrightarrow> cor_set_event e n \<or> cor_cleared_event e n"

text \<open>
  The notifications about one register, whatever the entry: each of the three loops
  starts its messages with its own words.
\<close>

definition base_register_event :: "notification \<Rightarrow> bool" where
  "base_register_event n \<longleftrightarrow> take 20 (message n) = ''Device Status Error ''"

definition unc_register_event :: "notification \<Rightarrow> bool" where
  "unc_register_event n \<longleftrightarrow> take 14 (message n) = ''Uncorrectable(''"

definition cor_register_event :: "notification \<Rightarrow> bool" where
  "cor_register_event n \<longleftrightarrow> take 18 (message n) = ''Correctable Error ''"

text \<open>
  The values one poll of a device reads from its opened file: the Device Status low
  nibble and the five AER registers.
\<close>

definition read_devsta :: "pcie_file \<Rightarrow> pcie_device \<Rightarrow> 16 word" where
  "read_devsta f dev = pcie_read16 f (cap_exp dev + PCI_EXP_DEVSTA) AND 0xf"

definition read_uncor_status :: "pcie_file \<Rightarrow> pcie_device \<Rightarrow> 32 word" where
  "read_uncor_status f dev = pcie_read32 f (ecap_aer dev + PCI_ERR_UNCOR_STATUS)"

definition read_uncor_mask :: "pcie_file \<Rightarrow> pcie_device \<Rightarrow> 32 word" where
  "read_uncor_mask f dev = pcie_read32 f (ecap_aer dev + PCI_ERR_UNCOR_MASK)"

definition read_uncor_sever :: "pcie_file \<Rightarrow> pcie_device \<Rightarrow> 32 word" where
  "read_uncor_sever f dev = pcie_read32 f (ecap_aer dev + PCI_ERR_UNCOR_SEVER)"

definition read_cor_status :: "pcie_file \<Rightarrow> pcie_device \<Rightarrow> 32 word" where
  "read_cor_status f dev = pcie_read32 f (ecap_aer dev + PCI_ERR_COR_STATUS)"

definition read_cor_mask :: "pcie_file \<Rightarrow> pcie_device \<Rightarrow> 32 word" where
  "read_cor_mask f dev = pcie_read32 f (ecap_aer dev + PCI_ERR_COR_MASK)"

text \<open>
  Successive poll cycles of one device: the read callback runs once per cycle, each
  time against the hardware as it is then; the result lists the notifications of each
  cycle.
\<close>

fun pcie_poll_cycles ::
    "pcie_config \<Rightarrow> pcie_fops list \<Rightarrow> pcie_device \<Rightarrow> notification list list" where
  "pcie_poll_cycles cfg [] dev = []"
| "pcie_poll_cycles cfg (fops # rest) dev =
    (let (failed, ns, dev') = pcie_process_dev cfg fops dev
     in ns # pcie_poll_cycles cfg rest dev')"

text \<open>
  The trace of one poll of an opened device, in three pieces: what the Device Status
  check dispatches, what the uncorrectable block of the AER check dispatches, and what
  the correctable block dispatches; and the device record as the poll leaves it. That
  \<open>pcie_process_dev\<close> computes exactly these is proved below (\<open>process_dev_open\<close>).
\<close>

definition devsta_events :: "pcie_config \<Rightarrow> pcie_file \<Rightarrow> pcie_device \<Rightarrow> notification list" where
  "devsta_events cfg f dev =
    (if \<not> (persistent cfg \<and> read_devsta f dev \<noteq> 0) \<and> read_devsta f dev = device_status dev
     then []
     else pcie_check_dev_status_loop cfg dev (read_devsta f dev) pcie_base_errors)"

definition uncor_events :: "pcie_config \<Rightarrow> pcie_file \<Rightarrow> pcie_device \<Rightarrow> notification list" where
  "uncor_events cfg f dev =
    (if ecap_aer dev \<noteq> - 1 \<and>
        ((persistent cfg \<and> read_uncor_status f dev \<noteq> 0) \<or>
         read_uncor_status f dev \<noteq> uncorrectable_errors dev)
     then pcie_dispatch_uncorrectable_errors_loop cfg dev (read_uncor_status f dev)
            (read_uncor_mask f dev) (read_uncor_sever f dev) pcie_aer_ues
     else [])"

definition cor_events :: "pcie_config \<Rightarrow> pcie_file \<Rightarrow> pcie_device \<Rightarrow> notification list" where
  "cor_events cfg f dev =
    (if ecap_aer dev \<noteq> - 1 \<and>
        ((persistent cfg \<and> read_cor_status f dev \<noteq> 0) \<or>
         read_cor_status f dev \<noteq> correctable_errors dev)
     then pcie_dispatch_correctable_errors_loop cfg dev (read_cor_status f dev)
            (read_cor_mask f dev) pcie_aer_ces
     else [])"

definition polled_device :: "pcie_file \<Rightarrow> pcie_device \<Rightarrow> pcie_device" where
  "polled_device f dev =
    (if ecap_aer dev \<noteq> - 1
     then dev\<lparr>device_status := read_devsta f dev,
              uncorrectable_errors := read_uncor_status f dev,
              correctable_errors := read_cor_status f dev\<rparr>
     else dev\<lparr>device_status := read_devsta f dev\<rparr>)"

text \<open>
  The classification of the catalog bits: the Fatal bit of Device Status is a failure
  of type instance "fatal", the Correctable bit a warning of type instance
  "correctable", the other two warnings of type instance "non\_fatal"; an uncorrectable
  AER bit is a failure ("fatal") when the severity register marks it, a warning
  ("non\_fatal") otherwise.
\<close>

definition devsta_severity :: "pcie_error \<Rightarrow> notif_severity" where
  "devsta_severity e = (if mask_err e = PCI_EXP_DEVSTA_FED then NOTIF_FAILURE else NOTIF_WARNING)"

definition devsta_class :: "pcie_error \<Rightarrow> string" where
  "devsta_class e =
    (if mask_err e = PCI_EXP_DEVSTA_FED then ''fatal''
     else if mask_err e = PCI_EXP_DEVSTA_CED then ''correctable'' else ''non_fatal'')"

definition uncor_severity :: "32 word \<Rightarrow> pcie_error \<Rightarrow> notif_severity" where
  "uncor_severity sever e = (if sever AND mask_err e \<noteq> 0 then NOTIF_FAILURE else NOTIF_WARNING)"

definition uncor_class :: "32 word \<Rightarrow> pcie_error \<Rightarrow> string" where
  "uncor_class sever e = (if sever AND mask_err e \<noteq> 0 then ''fatal'' else ''non_fatal'')"

text \<open>
  What it means that a poll cycle of a device sees a catalog bit set and is not told to
  keep it to itself: the open succeeds, the bit is set in the status register read, and
  for the two AER registers the device has the AER capability and the bit is not masked
  while masked errors are left out.
\<close>

definition devsta_bit_seen :: "pcie_fops \<Rightarrow> pcie_device \<Rightarrow> pcie_error \<Rightarrow> bool" where
  "devsta_bit_seen fops dev e =
    (case fops_open fops (pcie_dev_addr dev) of
       None \<Rightarrow> False
     | Some f \<Rightarrow> mask_err e AND ucast (read_devsta f dev) \<noteq> 0)"

definition uncor_bit_seen :: "pcie_config \<Rightarrow> pcie_fops \<Rightarrow> pcie_device \<Rightarrow> pcie_error \<Rightarrow> bool" where
  "uncor_bit_seen cfg fops dev e =
    (case fops_open fops (pcie_dev_addr dev) of
       None \<Rightarrow> False
     | Some f \<Rightarrow>
         ecap_aer dev \<noteq> - 1 \<and> mask_err e AND read_uncor_status f dev \<noteq> 0 \<and>
         (notif_masked cfg \<or> mask_err e AND read_uncor_mask f dev = 0))"

definition cor_bit_seen :: "pcie_config \<Rightarrow> pcie_fops \<Rightarrow> pcie_device \<Rightarrow> pcie_error \<Rightarrow> bool" where
  "cor_bit_seen cfg fops dev e =
    (case fops_open fops (pcie_dev_addr dev) of
       None \<Rightarrow> False
     | Some f \<Rightarrow>
         ecap_aer dev \<noteq> - 1 \<and> mask_err e AND read_cor_status f dev \<noteq> 0 \<and>
         (notif_masked cfg \<or> mask_err e AND read_cor_mask f dev = 0))"

text \<open>
  What it means that a later poll cycle finds a bit of an AER status register as an
  earlier read \<open>v\<close> of that register had it: the device cannot be opened, so that
  nothing is read, or the bit read is the bit of \<open>v\<close>.
\<close>

definition uncor_bit_keeps :: "32 word \<Rightarrow> pcie_fops \<Rightarrow> pcie_device \<Rightarrow> pcie_error \<Rightarrow> bool" where
  "uncor_bit_keeps v fops dev e =
    (case fops_open fops (pcie_dev_addr dev) of
       None \<Rightarrow> True
     | Some g \<Rightarrow> mask_err e AND read_uncor_status g dev = mask_err e AND v)"

definition cor_bit_keeps :: "32 word \<Rightarrow> pcie_fops \<Rightarrow> pcie_device \<Rightarrow> pcie_error \<Rightarrow> bool" where
  "cor_bit_keeps v fops dev e =
    (case fops_open fops (pcie_dev_addr dev) of
       None \<Rightarrow> True
     | Some g \<Rightarrow> mask_err e AND read_cor_status g dev = mask_err e AND v)"


section \<open>Concrete configurations, devices and register files\<close>

text \<open>
  A register file given by a table: a read at a listed position delivers the listed
  bytes (cut to the size asked for), any other read delivers zero bytes.
\<close>

definition regs_file :: "(int \<times> 8 word list) list \<Rightarrow> pcie_file" where
  "regs_file regs sz pos =
    (case map_of regs pos of None \<Rightarrow> Some (replicate sz 0) | Some bs \<Rightarrow> Some (take sz bs))"

definition fops_file :: "pcie_file \<Rightarrow> pcie_fops" where
  "fops_file f = \<lparr>fops_open = (\<lambda>a. Some f)\<rparr>"

text \<open>The plugin's default switches, and persistent notifications switched on.\<close>

definition cfg_default :: pcie_config where
  "cfg_default = \<lparr>notif_masked = False, persistent = False\<rparr>"

definition cfg_persistent :: pcie_config where
  "cfg_persistent = \<lparr>notif_masked = False, persistent = True\<rparr>"

text \<open>
  Device 0000:03:00.0 with its PCI Express capability at 0x40 and AER at 0x100, nothing
  observed so far.
\<close>

definition dev_03 :: pcie_device where
  "dev_03 = \<lparr>domain = 0, bus = 3, device = 0, fn = 0, cap_exp = 0x40, ecap_aer = 0x100,
             device_status = 0, correctable_errors = 0, uncorrectable_errors = 0\<rparr>"

text \<open>
  Register contents: Fatal Error in Device Status, Malformed TLP in the uncorrectable
  status and marked fatal in the severity register, Receiver Error in the correctable
  status, nothing masked.
\<close>

definition file_errors :: pcie_file where
  "file_errors = regs_file [(0x4a, [0x04, 0]), (0x104, [0, 0, 0x04, 0]),
     (0x10c, [0, 0, 0x04, 0]), (0x110, [0x01, 0, 0, 0])]"

text \<open>The device as a poll of these registers leaves it.\<close>

definition dev_03_errors :: pcie_device where
  "dev_03_errors = dev_03\<lparr>device_status := 0x4, uncorrectable_errors := 0x40000,
     correctable_errors := 0x1\<rparr>"

text \<open>All registers zero.\<close>

definition file_quiet :: pcie_file where
  "file_quiet = regs_file []"

text \<open>Data Link Protocol error set in the uncorrectable status and masked.\<close>

definition file_dlp_masked :: pcie_file where
  "file_dlp_masked = regs_file [(0x104, [0x10, 0, 0, 0]), (0x108, [0x10, 0, 0, 0])]"

text \<open>Three catalog entries by name.\<close>

definition err_fed :: pcie_error where
  "err_fed = \<lparr>mask_err = PCI_EXP_DEVSTA_FED, desc = ''Fatal Error''\<rparr>"

definition err_malf_tlp :: pcie_error where
  "err_malf_tlp = \<lparr>mask_err = PCI_ERR_UNC_MALF_TLP, desc = ''Malformed TLP''\<rparr>"

definition err_dlp :: pcie_error where
  "err_dlp = \<lparr>mask_err = PCI_ERR_UNC_DLP, desc = ''Data Link Protocol''\<rparr>"

definition err_rcvr :: pcie_error where
  "err_rcvr = \<lparr>mask_err = PCI_ERR_COR_RCVR, desc = ''Receiver Error Status''\<rparr>"





text \<open>
  Data Link Protocol (uncorrectable) and Receiver Error (correctable) set and masked; the
  same two bits set and not masked; the device as a poll of either leaves it.
\<close>

definition file_masked :: pcie_file where
  "file_masked = regs_file [(0x104, [0x10, 0, 0, 0]), (0x108, [0x10, 0, 0, 0]),
     (0x110, [0x01, 0, 0, 0]), (0x114, [0x01, 0, 0, 0])]"

definition file_unmasked :: pcie_file where
  "file_unmasked = regs_file [(0x104, [0x10, 0, 0, 0]), (0x110, [0x01, 0, 0, 0])]"

definition dev_03_masked :: pcie_device where
  "dev_03_masked = dev_03\<lparr>uncorrectable_errors := 0x10, correctable_errors := 0x1\<rparr>"

text \<open>Both bits masked and both status registers clear.\<close>

definition file_mask_only :: pcie_file where
  "file_mask_only = regs_file [(0x108, [0x10, 0, 0, 0]), (0x114, [0x01, 0, 0, 0])]"

text \<open>A function table that opens the devices listed, each with its file.\<close>

definition fops_table :: "(pcie_addr \<times> pcie_file) list \<Rightarrow> pcie_fops" where
  "fops_table tbl = \<lparr>fops_open = map_of tbl\<rparr>"

text \<open>
  Configuration spaces for the capability walk: a cyclic capability list (pointer 0x40,
  whose entry has ID 0x01 and points back to 0x40); a list with a power-management entry
  at 0x40 followed by the PCI Express capability at 0x50 and no extended capabilities;
  and one with the PCI Express capability at 0x40 and the AER capability at 0x100.
\<close>

definition file_cyclic :: pcie_file where
  "file_cyclic = regs_file [(0x34, [0x40]), (0x40, [0x01]), (0x41, [0x40])]"

definition file_caps :: pcie_file where
  "file_caps = regs_file [(0x06, [0x10, 0]), (0x34, [0x40]), (0x40, [0x01]), (0x41, [0x50]),
     (0x50, [0x10]), (0x51, [0])]"

definition file_aer :: pcie_file where
  "file_aer = regs_file [(0x06, [0x10, 0]), (0x34, [0x40]), (0x40, [0x10]),
     (0x100, [0x01, 0, 0, 0])]"

text \<open>Two devices as the pruning pass leaves them.\<close>

definition dev_03_caps :: pcie_device where
  "dev_03_caps = dev_03\<lparr>cap_exp := 0x50, ecap_aer := - 1\<rparr>"

definition dev_06 :: pcie_device where
  "dev_06 = dev_03\<lparr>bus := 6\<rparr>"

section \<open>Terms in which the log properties are stated\<close>

text \<open>
  How \<^verbatim>\<open>pcie_parse_msg\<close> recognises the severity field and the device field (the name
  begins with the keyword), and the items it reads: those before the first item with an
  empty value, among the first \<^verbatim>\<open>max_items\<close>.
\<close>

definition is_severity_item :: "message_item \<Rightarrow> bool" where
  "is_severity_item it \<longleftrightarrow>
     take (length PCIE_LOG_SEVERITY) (item_name it) = PCIE_LOG_SEVERITY"

definition is_device_item :: "message_item \<Rightarrow> bool" where
  "is_device_item it \<longleftrightarrow> take (length PCIE_LOG_DEV) (item_name it) = PCIE_LOG_DEV"

definition live_items :: "parser_message \<Rightarrow> nat \<Rightarrow> message_item list" where
  "live_items msg max_items =
    takeWhile (\<lambda>it. item_value it \<noteq> []) (take max_items (message_items msg))"

text \<open>
  The two vocabulary patterns in words: a value mentions "non-fatal" when it contains
  that word with the \<open>n\<close> and the \<open>f\<close> in either case and every other letter in lower case;
  it mentions "fatal" when it contains "fatal" or "Fatal". The class and the severity
  they give, in the order of priority.
\<close>

definition mentions_non_fatal :: "string \<Rightarrow> bool" where
  "mentions_non_fatal v \<longleftrightarrow>
     sublist ''non-fatal'' v \<or> sublist ''Non-fatal'' v \<or>
     sublist ''non-Fatal'' v \<or> sublist ''Non-Fatal'' v"

definition mentions_fatal :: "string \<Rightarrow> bool" where
  "mentions_fatal v \<longleftrightarrow> sublist ''fatal'' v \<or> sublist ''Fatal'' v"

definition log_class :: "string \<Rightarrow> string" where
  "log_class v =
    (if mentions_non_fatal v then ''non_fatal''
     else if mentions_fatal v then ''fatal'' else ''correctable'')"

definition log_severity :: "string \<Rightarrow> notif_severity" where
  "log_severity v =
    (if \<not> mentions_non_fatal v \<and> mentions_fatal v then NOTIF_FAILURE else NOTIF_WARNING)"

text \<open>The effect of one item on the notification under construction.\<close>

definition parse_step :: "message_item \<Rightarrow> notification \<Rightarrow> notification" where
  "parse_step item n =
    (if is_severity_item item then
       (if mentions_non_fatal (item_value item) then n\<lparr>type_instance := ''non_fatal''\<rparr>
        else if mentions_fatal (item_value item)
          then n\<lparr>severity := NOTIF_FAILURE, type_instance := ''fatal''\<rparr>
        else n\<lparr>type_instance := ''correctable''\<rparr>)
     else if is_device_item item then
       n\<lparr>plugin_instance := sstrncpy (item_value item) DATA_MAX_NAME_LEN\<rparr>
     else n\<lparr>meta := meta n @ [(item_name item, item_value item)]\<rparr>)"

text \<open>
  Item arrays of 32 entries, the unused entries empty. Two come from the default parser
  (root port, device, severity, error type, id): one whose optional error type is empty
  and one complete with a non-fatal severity; the third has the severity spelled in
  capitals.
\<close>

definition msg_no_type :: parser_message where
  "msg_no_type = \<lparr>message_items =
     [\<lparr>item_name = ''root port'', item_value = ''0000:00:03.0''\<rparr>,
      \<lparr>item_name = ''device'', item_value = ''0000:01:00.0''\<rparr>,
      \<lparr>item_name = ''severity'', item_value = ''Corrected''\<rparr>,
      \<lparr>item_name = ''error type'', item_value = []\<rparr>,
      \<lparr>item_name = ''id'', item_value = ''0008''\<rparr>]
     @ replicate 27 \<lparr>item_name = [], item_value = []\<rparr>\<rparr>"

definition msg_non_fatal :: parser_message where
  "msg_non_fatal = \<lparr>message_items =
     [\<lparr>item_name = ''root port'', item_value = ''0000:00:03.0''\<rparr>,
      \<lparr>item_name = ''device'', item_value = ''0000:01:00.0''\<rparr>,
      \<lparr>item_name = ''severity'', item_value = ''Uncorrected (Non-Fatal)''\<rparr>,
      \<lparr>item_name = ''error type'', item_value = ''Transaction Layer''\<rparr>,
      \<lparr>item_name = ''id'', item_value = ''0008''\<rparr>]
     @ replicate 27 \<lparr>item_name = [], item_value = []\<rparr>\<rparr>"

definition msg_upper_case :: parser_message where
  "msg_upper_case = \<lparr>message_items =
     [\<lparr>item_name = ''device'', item_value = ''0000:01:00.0''\<rparr>,
      \<lparr>item_name = ''severity'', item_value = ''NON-FATAL''\<rparr>]
     @ replicate 30 \<lparr>item_name = [], item_value = []\<rparr>\<rparr>"

section \<open>Properties of the error state tracker\<close>

subsection \<open>Notifications built by the register path\<close>

lemma sstrncpy_short: "length s < n \<Longrightarrow> sstrncpy s n = s"
  by (simp add: sstrncpy_def)

lemma dispatch_event:
  "length ti < DATA_MAX_NAME_LEN \<Longrightarrow>
   pcie_dispatch_notification dev ((notif_init sev)\<lparr>message := m\<rparr>) PCIE_ERROR ti =
   pcie_event dev sev m ti"
  by (simp add: pcie_dispatch_notification_def pcie_do_dispatch_notification_def notif_init_def
      pcie_event_def sstrncpy_short PCIE_ERROR_def PCIE_ERRORS_PLUGIN_def DATA_MAX_NAME_LEN_def)

lemma dispatch_event_sev:
  "length ti < DATA_MAX_NAME_LEN \<Longrightarrow>
   pcie_dispatch_notification dev ((notif_init sev)\<lparr>severity := sev', message := m\<rparr>) PCIE_ERROR ti =
   pcie_event dev sev' m ti"
  by (simp add: pcie_dispatch_notification_def pcie_do_dispatch_notification_def notif_init_def
      pcie_event_def sstrncpy_short PCIE_ERROR_def PCIE_ERRORS_PLUGIN_def DATA_MAX_NAME_LEN_def)

lemma message_pcie_event [simp]: "message (pcie_event dev sev m ti) = m"
  by (simp add: pcie_event_def)

lemma severity_pcie_event [simp]: "severity (pcie_event dev sev m ti) = sev"
  by (simp add: pcie_event_def)

subsection \<open>One iteration of each loop\<close>

lemma cor_loop_single:
  "pcie_dispatch_correctable_errors_loop cfg dev errors masked [e] =
    (if \<not> notif_masked cfg \<and> mask_err e AND masked \<noteq> 0 then []
     else if mask_err e AND errors \<noteq> 0 then
       (if \<not> persistent cfg \<and> mask_err e AND correctable_errors dev \<noteq> 0 then []
        else [pcie_event dev NOTIF_WARNING (''Correctable Error set: '' @ desc e) ''correctable''])
     else if mask_err e AND correctable_errors dev \<noteq> 0 then
       [pcie_event dev NOTIF_OKAY (''Correctable Error cleared: '' @ desc e) ''correctable'']
     else [])"
  by (simp add: Let_def dispatch_event dispatch_event_sev PCIE_SEV_CE_def DATA_MAX_NAME_LEN_def)

lemma unc_loop_single:
  "pcie_dispatch_uncorrectable_errors_loop cfg dev errors masked sever [e] =
    (if \<not> notif_masked cfg \<and> mask_err e AND masked \<noteq> 0 then []
     else if mask_err e AND errors \<noteq> 0 then
       (if \<not> persistent cfg \<and> mask_err e AND uncorrectable_errors dev \<noteq> 0 then []
        else if sever AND mask_err e \<noteq> 0
          then [pcie_event dev NOTIF_FAILURE (''Uncorrectable(fatal) Error set: '' @ desc e) ''fatal'']
          else [pcie_event dev NOTIF_WARNING (''Uncorrectable(non_fatal) Error set: '' @ desc e) ''non_fatal''])
     else if mask_err e AND uncorrectable_errors dev \<noteq> 0 then
       (if sever AND mask_err e \<noteq> 0
          then [pcie_event dev NOTIF_OKAY (''Uncorrectable(fatal) Error cleared: '' @ desc e) ''fatal'']
          else [pcie_event dev NOTIF_OKAY (''Uncorrectable(non_fatal) Error cleared: '' @ desc e) ''non_fatal''])
     else [])"
  by (simp add: Let_def dispatch_event dispatch_event_sev PCIE_SEV_FATAL_def PCIE_SEV_NOFATAL_def
      DATA_MAX_NAME_LEN_def)

lemma base_loop_single:
  "pcie_check_dev_status_loop cfg dev new_status [e] =
    (if mask_err e AND ucast new_status \<noteq> 0 then
       (if \<not> persistent cfg \<and> mask_err e AND ucast (device_status dev) \<noteq> 0 then []
        else [pcie_event dev
                (if mask_err e = PCI_EXP_DEVSTA_FED then NOTIF_FAILURE else NOTIF_WARNING)
                (''Device Status Error set: '' @ desc e)
                (if mask_err e = PCI_EXP_DEVSTA_FED then ''fatal''
                 else if mask_err e = PCI_EXP_DEVSTA_CED then ''correctable'' else ''non_fatal'')])
     else if mask_err e AND ucast (device_status dev) \<noteq> 0 then
       [pcie_event dev NOTIF_OKAY (''Device Status Error cleared: '' @ desc e)
          (if mask_err e = PCI_EXP_DEVSTA_FED then ''fatal''
           else if mask_err e = PCI_EXP_DEVSTA_CED then ''correctable'' else ''non_fatal'')]
     else [])"
  by (simp add: Let_def dispatch_event dispatch_event_sev PCIE_SEV_FATAL_def PCIE_SEV_NOFATAL_def
      PCIE_SEV_CE_def DATA_MAX_NAME_LEN_def)

lemma cor_loop_Cons:
  "pcie_dispatch_correctable_errors_loop cfg dev errors masked (e # es) =
   pcie_dispatch_correctable_errors_loop cfg dev errors masked [e] @
   pcie_dispatch_correctable_errors_loop cfg dev errors masked es"
  by (simp add: Let_def)

lemma unc_loop_Cons:
  "pcie_dispatch_uncorrectable_errors_loop cfg dev errors masked sever (e # es) =
   pcie_dispatch_uncorrectable_errors_loop cfg dev errors masked sever [e] @
   pcie_dispatch_uncorrectable_errors_loop cfg dev errors masked sever es"
  by (simp add: Let_def)

lemma base_loop_Cons:
  "pcie_check_dev_status_loop cfg dev new_status (e # es) =
   pcie_check_dev_status_loop cfg dev new_status [e] @
   pcie_check_dev_status_loop cfg dev new_status es"
  by (simp add: Let_def)

subsection \<open>Events about one entry\<close>

lemma cor_event_pcie_event [simp]:
  "cor_event e (pcie_event dev sev m ti) \<longleftrightarrow>
     m = ''Correctable Error set: '' @ desc e \<or> m = ''Correctable Error cleared: '' @ desc e"
  by (simp add: cor_event_def cor_set_event_def cor_cleared_event_def)

lemma unc_event_pcie_event [simp]:
  "unc_event e (pcie_event dev sev m ti) \<longleftrightarrow>
     m = ''Uncorrectable(fatal) Error set: '' @ desc e \<or>
     m = ''Uncorrectable(non_fatal) Error set: '' @ desc e \<or>
     m = ''Uncorrectable(fatal) Error cleared: '' @ desc e \<or>
     m = ''Uncorrectable(non_fatal) Error cleared: '' @ desc e"
  by (auto simp add: unc_event_def unc_set_event_def unc_cleared_event_def)

lemma base_event_pcie_event [simp]:
  "base_event e (pcie_event dev sev m ti) \<longleftrightarrow>
     m = ''Device Status Error set: '' @ desc e \<or> m = ''Device Status Error cleared: '' @ desc e"
  by (simp add: base_event_def base_set_event_def base_cleared_event_def)

lemma cor_single_other:
  "desc a \<noteq> desc e \<Longrightarrow>
   filter (cor_event e) (pcie_dispatch_correctable_errors_loop cfg dev errors masked [a]) = []"
  by (simp add: cor_loop_single del: pcie_dispatch_correctable_errors_loop.simps)

lemma cor_single_self:
  "filter (cor_event e) (pcie_dispatch_correctable_errors_loop cfg dev errors masked [e]) =
   pcie_dispatch_correctable_errors_loop cfg dev errors masked [e]"
  by (simp add: cor_loop_single del: pcie_dispatch_correctable_errors_loop.simps)

lemma cor_loop_other:
  "desc e \<notin> desc ` set errs \<Longrightarrow>
   filter (cor_event e) (pcie_dispatch_correctable_errors_loop cfg dev errors masked errs) = []"
proof (induction errs)
  case Nil
  show ?case by simp
next
  case (Cons a errs)
  then have "desc a \<noteq> desc e" and "desc e \<notin> desc ` set errs" by auto
  with Cons.IH show ?case
    by (subst cor_loop_Cons) (simp add: cor_single_other del: pcie_dispatch_correctable_errors_loop.simps)
qed

lemma cor_loop_project:
  "distinct (map desc errs) \<Longrightarrow> e \<in> set errs \<Longrightarrow>
   filter (cor_event e) (pcie_dispatch_correctable_errors_loop cfg dev errors masked errs) =
   pcie_dispatch_correctable_errors_loop cfg dev errors masked [e]"
proof (induction errs)
  case Nil
  then show ?case by simp
next
  case (Cons a errs)
  show ?case
  proof (cases "a = e")
    case True
    with Cons.prems have "desc e \<notin> desc ` set errs" by auto
    then have "filter (cor_event e)
        (pcie_dispatch_correctable_errors_loop cfg dev errors masked errs) = []"
      by (rule cor_loop_other)
    with True show ?thesis
      by (subst cor_loop_Cons)
         (simp add: cor_single_self del: pcie_dispatch_correctable_errors_loop.simps)
  next
    case False
    with Cons.prems have e: "e \<in> set errs" and d: "desc a \<noteq> desc e"
      and dd: "distinct (map desc errs)" by auto
    from Cons.IH[OF dd e] d show ?thesis
      by (subst cor_loop_Cons)
         (simp add: cor_single_other del: pcie_dispatch_correctable_errors_loop.simps)
  qed
qed

lemma unc_single_other:
  "desc a \<noteq> desc e \<Longrightarrow>
   filter (unc_event e) (pcie_dispatch_uncorrectable_errors_loop cfg dev errors masked sever [a]) = []"
  by (simp add: unc_loop_single del: pcie_dispatch_uncorrectable_errors_loop.simps)

lemma unc_single_self:
  "filter (unc_event e) (pcie_dispatch_uncorrectable_errors_loop cfg dev errors masked sever [e]) =
   pcie_dispatch_uncorrectable_errors_loop cfg dev errors masked sever [e]"
  by (simp add: unc_loop_single del: pcie_dispatch_uncorrectable_errors_loop.simps)

lemma unc_loop_other:
  "desc e \<notin> desc ` set errs \<Longrightarrow>
   filter (unc_event e) (pcie_dispatch_uncorrectable_errors_loop cfg dev errors masked sever errs) = []"
proof (induction errs)
  case Nil
  show ?case by simp
next
  case (Cons a errs)
  then have "desc a \<noteq> desc e" and "desc e \<notin> desc ` set errs" by auto
  with Cons.IH show ?case
    by (subst unc_loop_Cons) (simp add: unc_single_other del: pcie_dispatch_uncorrectable_errors_loop.simps)
qed

lemma unc_loop_project:
  "distinct (map desc errs) \<Longrightarrow> e \<in> set errs \<Longrightarrow>
   filter (unc_event e) (pcie_dispatch_uncorrectable_errors_loop cfg dev errors masked sever errs) =
   pcie_dispatch_uncorrectable_errors_loop cfg dev errors masked sever [e]"
proof (induction errs)
  case Nil
  then show ?case by simp
next
  case (Cons a errs)
  show ?case
  proof (cases "a = e")
    case True
    with Cons.prems have "desc e \<notin> desc ` set errs" by auto
    then have "filter (unc_event e)
        (pcie_dispatch_uncorrectable_errors_loop cfg dev errors masked sever errs) = []"
      by (rule unc_loop_other)
    with True show ?thesis
      by (subst unc_loop_Cons)
         (simp add: unc_single_self del: pcie_dispatch_uncorrectable_errors_loop.simps)
  next
    case False
    with Cons.prems have e: "e \<in> set errs" and d: "desc a \<noteq> desc e"
      and dd: "distinct (map desc errs)" by auto
    from Cons.IH[OF dd e] d show ?thesis
      by (subst unc_loop_Cons)
         (simp add: unc_single_other del: pcie_dispatch_uncorrectable_errors_loop.simps)
  qed
qed

lemma base_single_other:
  "desc a \<noteq> desc e \<Longrightarrow>
   filter (base_event e) (pcie_check_dev_status_loop cfg dev new_status [a]) = []"
  by (simp add: base_loop_single del: pcie_check_dev_status_loop.simps)

lemma base_single_self:
  "filter (base_event e) (pcie_check_dev_status_loop cfg dev new_status [e]) =
   pcie_check_dev_status_loop cfg dev new_status [e]"
  by (simp add: base_loop_single del: pcie_check_dev_status_loop.simps)

lemma base_loop_other:
  "desc e \<notin> desc ` set errs \<Longrightarrow>
   filter (base_event e) (pcie_check_dev_status_loop cfg dev new_status errs) = []"
proof (induction errs)
  case Nil
  show ?case by simp
next
  case (Cons a errs)
  then have "desc a \<noteq> desc e" and "desc e \<notin> desc ` set errs" by auto
  with Cons.IH show ?case
    by (subst base_loop_Cons) (simp add: base_single_other del: pcie_check_dev_status_loop.simps)
qed

lemma base_loop_project:
  "distinct (map desc errs) \<Longrightarrow> e \<in> set errs \<Longrightarrow>
   filter (base_event e) (pcie_check_dev_status_loop cfg dev new_status errs) =
   pcie_check_dev_status_loop cfg dev new_status [e]"
proof (induction errs)
  case Nil
  then show ?case by simp
next
  case (Cons a errs)
  show ?case
  proof (cases "a = e")
    case True
    with Cons.prems have "desc e \<notin> desc ` set errs" by auto
    then have "filter (base_event e) (pcie_check_dev_status_loop cfg dev new_status errs) = []"
      by (rule base_loop_other)
    with True show ?thesis
      by (subst base_loop_Cons)
         (simp add: base_single_self del: pcie_check_dev_status_loop.simps)
  next
    case False
    with Cons.prems have e: "e \<in> set errs" and d: "desc a \<noteq> desc e"
      and dd: "distinct (map desc errs)" by auto
    from Cons.IH[OF dd e] d show ?thesis
      by (subst base_loop_Cons)
         (simp add: base_single_other del: pcie_check_dev_status_loop.simps)
  qed
qed

subsection \<open>Events of one register\<close>

lemma cor_loop_register:
  "n \<in> set (pcie_dispatch_correctable_errors_loop cfg dev errors masked errs) \<Longrightarrow>
   cor_register_event n"
proof (induction errs)
  case Nil
  then show ?case by simp
next
  case (Cons a errs)
  from Cons.prems have
    "n \<in> set (pcie_dispatch_correctable_errors_loop cfg dev errors masked [a]) \<or>
     n \<in> set (pcie_dispatch_correctable_errors_loop cfg dev errors masked errs)"
    by (subst (asm) cor_loop_Cons) simp
  then show ?case
  proof
    assume "n \<in> set (pcie_dispatch_correctable_errors_loop cfg dev errors masked [a])"
    then show ?thesis
      by (auto simp: cor_loop_single cor_register_event_def split: if_splits
          simp del: pcie_dispatch_correctable_errors_loop.simps)
  next
    assume "n \<in> set (pcie_dispatch_correctable_errors_loop cfg dev errors masked errs)"
    then show ?thesis by (rule Cons.IH)
  qed
qed

lemma unc_loop_register:
  "n \<in> set (pcie_dispatch_uncorrectable_errors_loop cfg dev errors masked sever errs) \<Longrightarrow>
   unc_register_event n"
proof (induction errs)
  case Nil
  then show ?case by simp
next
  case (Cons a errs)
  from Cons.prems have
    "n \<in> set (pcie_dispatch_uncorrectable_errors_loop cfg dev errors masked sever [a]) \<or>
     n \<in> set (pcie_dispatch_uncorrectable_errors_loop cfg dev errors masked sever errs)"
    by (subst (asm) unc_loop_Cons) simp
  then show ?case
  proof
    assume "n \<in> set (pcie_dispatch_uncorrectable_errors_loop cfg dev errors masked sever [a])"
    then show ?thesis
      by (auto simp: unc_loop_single unc_register_event_def split: if_splits
          simp del: pcie_dispatch_uncorrectable_errors_loop.simps)
  next
    assume "n \<in> set (pcie_dispatch_uncorrectable_errors_loop cfg dev errors masked sever errs)"
    then show ?thesis by (rule Cons.IH)
  qed
qed

lemma base_loop_register:
  "n \<in> set (pcie_check_dev_status_loop cfg dev new_status errs) \<Longrightarrow> base_register_event n"
proof (induction errs)
  case Nil
  then show ?case by simp
next
  case (Cons a errs)
  from Cons.prems have
    "n \<in> set (pcie_check_dev_status_loop cfg dev new_status [a]) \<or>
     n \<in> set (pcie_check_dev_status_loop cfg dev new_status errs)"
    by (subst (asm) base_loop_Cons) simp
  then show ?case
  proof
    assume "n \<in> set (pcie_check_dev_status_loop cfg dev new_status [a])"
    then show ?thesis
      by (auto simp: base_loop_single base_register_event_def split: if_splits
          simp del: pcie_check_dev_status_loop.simps)
  next
    assume "n \<in> set (pcie_check_dev_status_loop cfg dev new_status errs)"
    then show ?thesis by (rule Cons.IH)
  qed
qed

lemma register_events_exclusive:
  "base_register_event n \<Longrightarrow> \<not> unc_register_event n"
  "base_register_event n \<Longrightarrow> \<not> cor_register_event n"
  "unc_register_event n \<Longrightarrow> \<not> base_register_event n"
  "unc_register_event n \<Longrightarrow> \<not> cor_register_event n"
  "cor_register_event n \<Longrightarrow> \<not> base_register_event n"
  "cor_register_event n \<Longrightarrow> \<not> unc_register_event n"
  by (cases "message n"; auto simp: base_register_event_def unc_register_event_def cor_register_event_def)+

lemma entry_event_register:
  "base_event e n \<Longrightarrow> base_register_event n"
  "unc_event e n \<Longrightarrow> unc_register_event n"
  "cor_event e n \<Longrightarrow> cor_register_event n"
  by (auto simp: base_event_def base_set_event_def base_cleared_event_def base_register_event_def
      unc_event_def unc_set_event_def unc_cleared_event_def unc_register_event_def
      cor_event_def cor_set_event_def cor_cleared_event_def cor_register_event_def)

lemma pcie_dev_name_cong:
  "pcie_dev_addr dev' = pcie_dev_addr dev \<Longrightarrow> pcie_dev_name dev' = pcie_dev_name dev"
  by (simp add: pcie_dev_addr_def pcie_dev_name_def)

lemma dispatch_cong:
  "pcie_dev_addr dev' = pcie_dev_addr dev \<Longrightarrow>
   pcie_dispatch_notification dev' n ty ti = pcie_dispatch_notification dev n ty ti"
  by (simp add: pcie_dispatch_notification_def pcie_dev_name_cong[of dev' dev])

lemma cor_loop_cong:
  "pcie_dev_addr dev' = pcie_dev_addr dev \<Longrightarrow> correctable_errors dev' = correctable_errors dev \<Longrightarrow>
   pcie_dispatch_correctable_errors_loop cfg dev' errors masked errs =
   pcie_dispatch_correctable_errors_loop cfg dev errors masked errs"
  by (induction errs) (simp_all add: Let_def dispatch_cong[of dev' dev])

lemma unc_loop_cong:
  "pcie_dev_addr dev' = pcie_dev_addr dev \<Longrightarrow> uncorrectable_errors dev' = uncorrectable_errors dev \<Longrightarrow>
   pcie_dispatch_uncorrectable_errors_loop cfg dev' errors masked sever errs =
   pcie_dispatch_uncorrectable_errors_loop cfg dev errors masked sever errs"
  by (induction errs) (simp_all add: Let_def dispatch_cong[of dev' dev])

lemma check_dev_status_eq:
  "pcie_check_dev_status cfg f dev (cap_exp dev) =
    (devsta_events cfg f dev, dev\<lparr>device_status := read_devsta f dev\<rparr>)"
  by (auto simp add: pcie_check_dev_status_def devsta_events_def read_devsta_def Let_def)

lemma check_aer_eq:
  assumes "pcie_dev_addr dev1 = pcie_dev_addr dev" "ecap_aer dev1 = ecap_aer dev"
    "uncorrectable_errors dev1 = uncorrectable_errors dev"
    "correctable_errors dev1 = correctable_errors dev" "ecap_aer dev \<noteq> - 1"
  shows "pcie_check_aer cfg f dev1 (ecap_aer dev1) =
    (uncor_events cfg f dev @ cor_events cfg f dev,
     dev1\<lparr>uncorrectable_errors := read_uncor_status f dev,
          correctable_errors := read_cor_status f dev\<rparr>)"
proof -
  have a: "pcie_dev_addr (dev1\<lparr>uncorrectable_errors := u\<rparr>) = pcie_dev_addr dev" for u
    using assms(1) by (simp add: pcie_dev_addr_def)
  have u: "pcie_dispatch_uncorrectable_errors_loop cfg dev1 errors masked sever errs =
      pcie_dispatch_uncorrectable_errors_loop cfg dev errors masked sever errs"
    for errors masked sever errs
    using assms(1,3) by (rule unc_loop_cong)
  have c: "pcie_dispatch_correctable_errors_loop cfg (dev1\<lparr>uncorrectable_errors := u\<rparr>)
        errors masked errs =
      pcie_dispatch_correctable_errors_loop cfg dev errors masked errs"
    for u errors masked errs
    by (rule cor_loop_cong[OF a]) (simp add: assms(4))
  show ?thesis
    using assms(2-5)
    by (auto simp add: pcie_check_aer_def uncor_events_def cor_events_def Let_def
        pcie_dispatch_uncorrectable_errors_def pcie_dispatch_correctable_errors_def
        read_uncor_status_def read_uncor_mask_def read_uncor_sever_def read_cor_status_def
        read_cor_mask_def u c)
qed

lemma process_dev_open:
  assumes "fops_open fops (pcie_dev_addr dev) = Some f"
  shows "pcie_process_dev cfg fops dev =
    (False, devsta_events cfg f dev @ uncor_events cfg f dev @ cor_events cfg f dev,
     polled_device f dev)"
proof (cases "ecap_aer dev = - 1")
  case True
  then show ?thesis
    using assms
    by (simp add: pcie_process_dev_def check_dev_status_eq uncor_events_def cor_events_def
        polled_device_def)
next
  case False
  have "pcie_check_aer cfg f (dev\<lparr>device_status := read_devsta f dev\<rparr>)
          (ecap_aer (dev\<lparr>device_status := read_devsta f dev\<rparr>)) =
    (uncor_events cfg f dev @ cor_events cfg f dev,
     dev\<lparr>device_status := read_devsta f dev, uncorrectable_errors := read_uncor_status f dev,
          correctable_errors := read_cor_status f dev\<rparr>)"
    by (rule check_aer_eq[where dev = dev, THEN trans]) (simp_all add: False pcie_dev_addr_def)
  then show ?thesis
    using assms False
    by (simp add: pcie_process_dev_def check_dev_status_eq polled_device_def)
qed

lemma process_dev_closed:
  assumes "fops_open fops (pcie_dev_addr dev) = None"
  shows "pcie_process_dev cfg fops dev =
    (True, [\<lparr>severity = NOTIF_FAILURE, message = ''Failed to read device status'',
             plugin = ''pcie_errors'', plugin_instance = pcie_dev_name dev, type = [],
             type_instance = [], meta = []\<rparr>], dev)"
  using assms
  by (simp add: pcie_process_dev_def pcie_dispatch_notification_def
      pcie_do_dispatch_notification_def notif_init_def sstrncpy_def PCIE_ERRORS_PLUGIN_def)

lemma distinct_base [simp]: "distinct (map desc pcie_base_errors)"
  by (simp add: pcie_base_errors_def)

lemma distinct_ues [simp]: "distinct (map desc pcie_aer_ues)"
  by (simp add: pcie_aer_ues_def)

lemma distinct_ces [simp]: "distinct (map desc pcie_aer_ces)"
  by (simp add: pcie_aer_ces_def)

lemma filter_none: "(\<And>n. n \<in> set xs \<Longrightarrow> \<not> P n) \<Longrightarrow> filter P xs = []"
  by (simp add: filter_empty_conv)

lemma devsta_events_register: "n \<in> set (devsta_events cfg f dev) \<Longrightarrow> base_register_event n"
  by (auto simp: devsta_events_def split: if_splits dest: base_loop_register)

lemma uncor_events_register: "n \<in> set (uncor_events cfg f dev) \<Longrightarrow> unc_register_event n"
  by (auto simp: uncor_events_def split: if_splits dest: unc_loop_register)

lemma cor_events_register: "n \<in> set (cor_events cfg f dev) \<Longrightarrow> cor_register_event n"
  by (auto simp: cor_events_def split: if_splits dest: cor_loop_register)

lemma base_event_blocks:
  "filter (base_event e) (uncor_events cfg f dev) = []"
  "filter (base_event e) (cor_events cfg f dev) = []"
  by (rule filter_none;
      blast dest: uncor_events_register cor_events_register entry_event_register
        register_events_exclusive)+

lemma unc_event_blocks:
  "filter (unc_event e) (devsta_events cfg f dev) = []"
  "filter (unc_event e) (cor_events cfg f dev) = []"
  by (rule filter_none;
      blast dest: devsta_events_register cor_events_register entry_event_register
        register_events_exclusive)+

lemma cor_event_blocks:
  "filter (cor_event e) (devsta_events cfg f dev) = []"
  "filter (cor_event e) (uncor_events cfg f dev) = []"
  by (rule filter_none;
      blast dest: devsta_events_register uncor_events_register entry_event_register
        register_events_exclusive)+

lemma base_event_devsta:
  "e \<in> set pcie_base_errors \<Longrightarrow>
   filter (base_event e) (devsta_events cfg f dev) =
    (if \<not> (persistent cfg \<and> read_devsta f dev \<noteq> 0) \<and> read_devsta f dev = device_status dev
     then [] else pcie_check_dev_status_loop cfg dev (read_devsta f dev) [e])"
  by (auto simp add: devsta_events_def base_loop_project simp del: pcie_check_dev_status_loop.simps)

lemma unc_event_uncor:
  "e \<in> set pcie_aer_ues \<Longrightarrow>
   filter (unc_event e) (uncor_events cfg f dev) =
    (if ecap_aer dev \<noteq> - 1 \<and>
        ((persistent cfg \<and> read_uncor_status f dev \<noteq> 0) \<or>
         read_uncor_status f dev \<noteq> uncorrectable_errors dev)
     then pcie_dispatch_uncorrectable_errors_loop cfg dev (read_uncor_status f dev)
            (read_uncor_mask f dev) (read_uncor_sever f dev) [e]
     else [])"
  by (auto simp add: uncor_events_def unc_loop_project simp del: pcie_dispatch_uncorrectable_errors_loop.simps)

lemma cor_event_cor:
  "e \<in> set pcie_aer_ces \<Longrightarrow>
   filter (cor_event e) (cor_events cfg f dev) =
    (if ecap_aer dev \<noteq> - 1 \<and>
        ((persistent cfg \<and> read_cor_status f dev \<noteq> 0) \<or>
         read_cor_status f dev \<noteq> correctable_errors dev)
     then pcie_dispatch_correctable_errors_loop cfg dev (read_cor_status f dev)
            (read_cor_mask f dev) [e]
     else [])"
  by (auto simp add: cor_events_def cor_loop_project simp del: pcie_dispatch_correctable_errors_loop.simps)

text \<open>The notifications of one poll about one entry, for an opened device.\<close>

lemma poll_base_event:
  assumes "fops_open fops (pcie_dev_addr dev) = Some f" "e \<in> set pcie_base_errors"
  shows "filter (base_event e) (fst (snd (pcie_process_dev cfg fops dev))) =
    (if \<not> (persistent cfg \<and> read_devsta f dev \<noteq> 0) \<and> read_devsta f dev = device_status dev
     then [] else pcie_check_dev_status_loop cfg dev (read_devsta f dev) [e])"
  by (simp add: process_dev_open[OF assms(1)] base_event_blocks base_event_devsta[OF assms(2)]
      del: pcie_check_dev_status_loop.simps)

lemma poll_unc_event:
  assumes "fops_open fops (pcie_dev_addr dev) = Some f" "e \<in> set pcie_aer_ues"
  shows "filter (unc_event e) (fst (snd (pcie_process_dev cfg fops dev))) =
    (if ecap_aer dev \<noteq> - 1 \<and>
        ((persistent cfg \<and> read_uncor_status f dev \<noteq> 0) \<or>
         read_uncor_status f dev \<noteq> uncorrectable_errors dev)
     then pcie_dispatch_uncorrectable_errors_loop cfg dev (read_uncor_status f dev)
            (read_uncor_mask f dev) (read_uncor_sever f dev) [e]
     else [])"
  by (simp add: process_dev_open[OF assms(1)] unc_event_blocks unc_event_uncor[OF assms(2)]
      del: pcie_dispatch_uncorrectable_errors_loop.simps)

lemma poll_cor_event:
  assumes "fops_open fops (pcie_dev_addr dev) = Some f" "e \<in> set pcie_aer_ces"
  shows "filter (cor_event e) (fst (snd (pcie_process_dev cfg fops dev))) =
    (if ecap_aer dev \<noteq> - 1 \<and>
        ((persistent cfg \<and> read_cor_status f dev \<noteq> 0) \<or>
         read_cor_status f dev \<noteq> correctable_errors dev)
     then pcie_dispatch_correctable_errors_loop cfg dev (read_cor_status f dev)
            (read_cor_mask f dev) [e]
     else [])"
  by (simp add: process_dev_open[OF assms(1)] cor_event_blocks cor_event_cor[OF assms(2)]
      del: pcie_dispatch_correctable_errors_loop.simps)

lemma poll_device:
  assumes "fops_open fops (pcie_dev_addr dev) = Some f"
  shows "snd (snd (pcie_process_dev cfg fops dev)) = polled_device f dev"
  by (simp add: process_dev_open[OF assms])

lemma bit_differs16:
  "(m :: 32 word) AND ucast (a :: 16 word) = 0 \<Longrightarrow> m AND ucast b \<noteq> 0 \<Longrightarrow> b \<noteq> a"
  by auto

lemma bit_differs32: "(m :: 32 word) AND a = 0 \<Longrightarrow> m AND b \<noteq> 0 \<Longrightarrow> b \<noteq> a"
  by auto

lemma set_event_imp:
  "base_set_event e n \<Longrightarrow> base_event e n" "base_cleared_event e n \<Longrightarrow> base_event e n"
  "unc_set_event e n \<Longrightarrow> unc_event e n" "unc_cleared_event e n \<Longrightarrow> unc_event e n"
  "cor_set_event e n \<Longrightarrow> cor_event e n" "cor_cleared_event e n \<Longrightarrow> cor_event e n"
  by (simp_all add: base_event_def unc_event_def cor_event_def)

lemma filter_sub:
  assumes "\<And>n. P n \<Longrightarrow> Q n"
  shows "filter P xs = filter P (filter Q xs)"
proof -
  have "(\<lambda>x. Q x \<and> P x) = P" using assms by auto
  then show ?thesis by simp
qed

lemma filter_sub_empty:
  assumes "\<And>n. P n \<Longrightarrow> Q n" "filter Q xs = []"
  shows "filter P xs = []"
  using filter_sub[of P Q xs, OF assms(1)] assms(2) by simp

lemma polled_device_static [simp]:
  "pcie_dev_addr (polled_device f dev) = pcie_dev_addr dev"
  "cap_exp (polled_device f dev) = cap_exp dev"
  "ecap_aer (polled_device f dev) = ecap_aer dev"
  by (simp_all add: polled_device_def pcie_dev_addr_def)

lemma read_static:
  assumes "cap_exp d' = cap_exp d" "ecap_aer d' = ecap_aer d"
  shows "read_devsta f d' = read_devsta f d" "read_uncor_status f d' = read_uncor_status f d"
    "read_uncor_mask f d' = read_uncor_mask f d" "read_uncor_sever f d' = read_uncor_sever f d"
    "read_cor_status f d' = read_cor_status f d" "read_cor_mask f d' = read_cor_mask f d"
  using assms
  by (simp_all add: read_devsta_def read_uncor_status_def read_uncor_mask_def
      read_uncor_sever_def read_cor_status_def read_cor_mask_def)

lemmas read_polled [simp] = read_static[of "polled_device g dev" dev for g dev, simplified]

subsection \<open>Evaluation helpers\<close>

lemma open_fops_file: "fops_open (fops_file f) a = Some f"
  by (simp add: fops_file_def)

lemma process_dev_triple:
  "pcie_process_dev cfg fops dev =
    (fst (pcie_process_dev cfg fops dev), fst (snd (pcie_process_dev cfg fops dev)),
     snd (snd (pcie_process_dev cfg fops dev)))"
  by simp

lemma process_dev_static:
  "pcie_dev_addr (snd (snd (pcie_process_dev cfg fops dev))) = pcie_dev_addr dev"
  "cap_exp (snd (snd (pcie_process_dev cfg fops dev))) = cap_exp dev"
  "ecap_aer (snd (snd (pcie_process_dev cfg fops dev))) = ecap_aer dev"
  by (cases "fops_open fops (pcie_dev_addr dev)";
      simp add: process_dev_open process_dev_closed)+

lemma seen_static:
  assumes "pcie_dev_addr d' = pcie_dev_addr d" "cap_exp d' = cap_exp d" "ecap_aer d' = ecap_aer d"
  shows "devsta_bit_seen fops d' e = devsta_bit_seen fops d e"
    "uncor_bit_seen cfg fops d' e = uncor_bit_seen cfg fops d e"
    "cor_bit_seen cfg fops d' e = cor_bit_seen cfg fops d e"
  using assms read_static[OF assms(2,3)]
  by (simp_all add: devsta_bit_seen_def uncor_bit_seen_def cor_bit_seen_def split: option.splits)

lemma poll_cycles_count:
  assumes one: "\<And>fops dev. P fops dev \<Longrightarrow>
      length (filter Q (fst (snd (pcie_process_dev cfg fops dev)))) = 1"
    and inv: "\<And>fops fops' dev. P fops' (snd (snd (pcie_process_dev cfg fops dev))) = P fops' dev"
  shows "\<forall>fops\<in>set cycles. P fops dev \<Longrightarrow>
    map (\<lambda>ns. length (filter Q ns)) (pcie_poll_cycles cfg cycles dev) =
    replicate (length cycles) 1"
proof (induction cycles arbitrary: dev)
  case Nil
  show ?case by simp
next
  case (Cons fops rest)
  obtain failed ns dev' where p: "pcie_process_dev cfg fops dev = (failed, ns, dev')"
    by (cases "pcie_process_dev cfg fops dev") auto
  from Cons.prems have "P fops dev" by simp
  from one[OF this] p have 1: "length (filter Q ns) = 1" by simp
  have "\<forall>fops'\<in>set rest. P fops' dev'"
    using Cons.prems inv[of _ fops dev] p by simp
  from Cons.IH[OF this] 1 p show ?case by simp
qed

lemma count_concat:
  "map (\<lambda>ns. length (filter Q ns)) xs = replicate k (1::nat) \<Longrightarrow>
   length (filter Q (concat xs)) = k"
proof (induction xs arbitrary: k)
  case Nil
  then show ?case by simp
next
  case (Cons a xs)
  then show ?case by (cases k) auto
qed

lemma persistent_base_one:
  assumes "persistent cfg" "e \<in> set pcie_base_errors" "devsta_bit_seen fops dev e"
  shows "length (filter (base_set_event e) (fst (snd (pcie_process_dev cfg fops dev)))) = 1"
proof -
  from assms(3) obtain f where o: "fops_open fops (pcie_dev_addr dev) = Some f"
    and s: "mask_err e AND ucast (read_devsta f dev) \<noteq> 0"
    by (auto simp: devsta_bit_seen_def split: option.splits)
  from s have nz: "read_devsta f dev \<noteq> 0" by auto
  have "filter (base_set_event e) (fst (snd (pcie_process_dev cfg fops dev))) =
      filter (base_set_event e) (filter (base_event e) (fst (snd (pcie_process_dev cfg fops dev))))"
    by (rule filter_sub) (rule set_event_imp)
  also have "\<dots> = [pcie_event dev (devsta_severity e) (''Device Status Error set: '' @ desc e)
               (devsta_class e)]"
    unfolding poll_base_event[OF o assms(2)] base_loop_single
    using assms(1) s nz by (simp add: base_set_event_def devsta_severity_def devsta_class_def)
  finally show ?thesis by simp
qed

lemma persistent_unc_one:
  assumes "persistent cfg" "e \<in> set pcie_aer_ues" "uncor_bit_seen cfg fops dev e"
  shows "length (filter (unc_set_event e) (fst (snd (pcie_process_dev cfg fops dev)))) = 1"
proof -
  from assms(3) obtain f where o: "fops_open fops (pcie_dev_addr dev) = Some f"
    and s: "mask_err e AND read_uncor_status f dev \<noteq> 0" "ecap_aer dev \<noteq> - 1"
      "notif_masked cfg \<or> mask_err e AND read_uncor_mask f dev = 0"
    by (auto simp: uncor_bit_seen_def split: option.splits)
  from s have nz: "read_uncor_status f dev \<noteq> 0" by auto
  have "filter (unc_set_event e) (fst (snd (pcie_process_dev cfg fops dev))) =
      filter (unc_set_event e) (filter (unc_event e) (fst (snd (pcie_process_dev cfg fops dev))))"
    by (rule filter_sub) (rule set_event_imp)
  also have "length \<dots> = 1"
    unfolding poll_unc_event[OF o assms(2)] unc_loop_single
    using assms(1) s nz by (auto simp add: unc_set_event_def)
  finally show ?thesis by simp
qed

lemma persistent_cor_one:
  assumes "persistent cfg" "e \<in> set pcie_aer_ces" "cor_bit_seen cfg fops dev e"
  shows "length (filter (cor_set_event e) (fst (snd (pcie_process_dev cfg fops dev)))) = 1"
proof -
  from assms(3) obtain f where o: "fops_open fops (pcie_dev_addr dev) = Some f"
    and s: "mask_err e AND read_cor_status f dev \<noteq> 0" "ecap_aer dev \<noteq> - 1"
      "notif_masked cfg \<or> mask_err e AND read_cor_mask f dev = 0"
    by (auto simp: cor_bit_seen_def split: option.splits)
  from s have nz: "read_cor_status f dev \<noteq> 0" by auto
  have "filter (cor_set_event e) (fst (snd (pcie_process_dev cfg fops dev))) =
      filter (cor_set_event e) (filter (cor_event e) (fst (snd (pcie_process_dev cfg fops dev))))"
    by (rule filter_sub) (rule set_event_imp)
  also have "length \<dots> = 1"
    unfolding poll_cor_event[OF o assms(2)] cor_loop_single
    using assms(1) s nz by (auto simp add: cor_set_event_def)
  finally show ?thesis by simp
qed


lemma loop_devices:
  "snd (snd (pcie_process_devices_loop cfg fops devs r)) =
    map (\<lambda>d. snd (snd (pcie_process_dev cfg fops d))) devs"
  by (induction devs arbitrary: r) (simp_all add: split_beta Let_def)


section \<open>Claims about the error state tracker\<close>

text \<open>
  C1 (as amended). One poll of a device that opens, for an entry \<open>e\<close> of one of the three
  catalogs: if the bit is clear in the stored baseline and set in the register just read,
  the poll dispatches exactly one notification about \<open>e\<close>, the "set" notification, with
  the severity of the bit's class (failure for the Fatal bit of Device Status and for an
  uncorrectable bit that the severity register marks, warning otherwise), and the
  baseline then has the bit set; if the bit is set in the baseline and clear in the
  register, it dispatches exactly one notification about \<open>e\<close>, the "cleared" one, with
  severity okay. For the two AER catalogs this holds when the device has AER and the bit
  is not masked in the mask register, or masked errors are reported.
\<close>

theorem transition_emits_one_event:
  assumes "fops_open fops (pcie_dev_addr dev) = Some f"
    and "pcie_process_dev cfg fops dev = (failed, ns, dev')"
  shows
    "(e \<in> set pcie_base_errors \<longrightarrow>
       (mask_err e AND ucast (device_status dev) = 0 \<and>
        mask_err e AND ucast (read_devsta f dev) \<noteq> 0 \<longrightarrow>
          filter (base_event e) ns =
            [pcie_event dev (devsta_severity e) (''Device Status Error set: '' @ desc e)
               (devsta_class e)] \<and>
          mask_err e AND ucast (device_status dev') \<noteq> 0) \<and>
       (mask_err e AND ucast (device_status dev) \<noteq> 0 \<and>
        mask_err e AND ucast (read_devsta f dev) = 0 \<longrightarrow>
          filter (base_event e) ns =
            [pcie_event dev NOTIF_OKAY (''Device Status Error cleared: '' @ desc e)
               (devsta_class e)])) \<and>
     (e \<in> set pcie_aer_ues \<and> ecap_aer dev \<noteq> - 1 \<and>
      (notif_masked cfg \<or> mask_err e AND read_uncor_mask f dev = 0) \<longrightarrow>
       (mask_err e AND uncorrectable_errors dev = 0 \<and>
        mask_err e AND read_uncor_status f dev \<noteq> 0 \<longrightarrow>
          filter (unc_event e) ns =
            [pcie_event dev (uncor_severity (read_uncor_sever f dev) e)
               (''Uncorrectable('' @ uncor_class (read_uncor_sever f dev) e @
                '') Error set: '' @ desc e)
               (uncor_class (read_uncor_sever f dev) e)] \<and>
          mask_err e AND uncorrectable_errors dev' \<noteq> 0) \<and>
       (mask_err e AND uncorrectable_errors dev \<noteq> 0 \<and>
        mask_err e AND read_uncor_status f dev = 0 \<longrightarrow>
          filter (unc_event e) ns =
            [pcie_event dev NOTIF_OKAY
               (''Uncorrectable('' @ uncor_class (read_uncor_sever f dev) e @
                '') Error cleared: '' @ desc e)
               (uncor_class (read_uncor_sever f dev) e)])) \<and>
     (e \<in> set pcie_aer_ces \<and> ecap_aer dev \<noteq> - 1 \<and>
      (notif_masked cfg \<or> mask_err e AND read_cor_mask f dev = 0) \<longrightarrow>
       (mask_err e AND correctable_errors dev = 0 \<and>
        mask_err e AND read_cor_status f dev \<noteq> 0 \<longrightarrow>
          filter (cor_event e) ns =
            [pcie_event dev NOTIF_WARNING (''Correctable Error set: '' @ desc e)
               ''correctable''] \<and>
          mask_err e AND correctable_errors dev' \<noteq> 0) \<and>
       (mask_err e AND correctable_errors dev \<noteq> 0 \<and>
        mask_err e AND read_cor_status f dev = 0 \<longrightarrow>
          filter (cor_event e) ns =
            [pcie_event dev NOTIF_OKAY (''Correctable Error cleared: '' @ desc e)
               ''correctable'']))"
proof -
  have ns: "ns = fst (snd (pcie_process_dev cfg fops dev))"
    and dev': "dev' = polled_device f dev"
    using assms(2) process_dev_open[OF assms(1), of cfg] by simp_all
  have b: "e \<in> set pcie_base_errors \<longrightarrow>
       (mask_err e AND ucast (device_status dev) = 0 \<and>
        mask_err e AND ucast (read_devsta f dev) \<noteq> 0 \<longrightarrow>
          filter (base_event e) ns =
            [pcie_event dev (devsta_severity e) (''Device Status Error set: '' @ desc e)
               (devsta_class e)] \<and>
          mask_err e AND ucast (device_status dev') \<noteq> 0) \<and>
       (mask_err e AND ucast (device_status dev) \<noteq> 0 \<and>
        mask_err e AND ucast (read_devsta f dev) = 0 \<longrightarrow>
          filter (base_event e) ns =
            [pcie_event dev NOTIF_OKAY (''Device Status Error cleared: '' @ desc e)
               (devsta_class e)])"
  proof (intro impI conjI)
    assume e: "e \<in> set pcie_base_errors"
    assume t: "mask_err e AND ucast (device_status dev) = 0 \<and>
        mask_err e AND ucast (read_devsta f dev) \<noteq> 0"
    then have "read_devsta f dev \<noteq> device_status dev" by (auto dest: bit_differs16)
    with t show "filter (base_event e) ns =
            [pcie_event dev (devsta_severity e) (''Device Status Error set: '' @ desc e)
               (devsta_class e)]"
      unfolding ns poll_base_event[OF assms(1) e] base_loop_single
      by (simp add: devsta_severity_def devsta_class_def)
    from t show "mask_err e AND ucast (device_status dev') \<noteq> 0"
      by (simp add: dev' polled_device_def)
  next
    assume e: "e \<in> set pcie_base_errors"
    assume t: "mask_err e AND ucast (device_status dev) \<noteq> 0 \<and>
        mask_err e AND ucast (read_devsta f dev) = 0"
    then have "read_devsta f dev \<noteq> device_status dev" by auto
    with t show "filter (base_event e) ns =
            [pcie_event dev NOTIF_OKAY (''Device Status Error cleared: '' @ desc e)
               (devsta_class e)]"
      unfolding ns poll_base_event[OF assms(1) e] base_loop_single
      by (simp add: devsta_class_def)
  qed
  have u: "e \<in> set pcie_aer_ues \<and> ecap_aer dev \<noteq> - 1 \<and>
      (notif_masked cfg \<or> mask_err e AND read_uncor_mask f dev = 0) \<longrightarrow>
       (mask_err e AND uncorrectable_errors dev = 0 \<and>
        mask_err e AND read_uncor_status f dev \<noteq> 0 \<longrightarrow>
          filter (unc_event e) ns =
            [pcie_event dev (uncor_severity (read_uncor_sever f dev) e)
               (''Uncorrectable('' @ uncor_class (read_uncor_sever f dev) e @
                '') Error set: '' @ desc e)
               (uncor_class (read_uncor_sever f dev) e)] \<and>
          mask_err e AND uncorrectable_errors dev' \<noteq> 0) \<and>
       (mask_err e AND uncorrectable_errors dev \<noteq> 0 \<and>
        mask_err e AND read_uncor_status f dev = 0 \<longrightarrow>
          filter (unc_event e) ns =
            [pcie_event dev NOTIF_OKAY
               (''Uncorrectable('' @ uncor_class (read_uncor_sever f dev) e @
                '') Error cleared: '' @ desc e)
               (uncor_class (read_uncor_sever f dev) e)])"
  proof (intro impI conjI)
    assume h: "e \<in> set pcie_aer_ues \<and> ecap_aer dev \<noteq> - 1 \<and>
      (notif_masked cfg \<or> mask_err e AND read_uncor_mask f dev = 0)"
    then have e: "e \<in> set pcie_aer_ues" by simp
    assume t: "mask_err e AND uncorrectable_errors dev = 0 \<and>
        mask_err e AND read_uncor_status f dev \<noteq> 0"
    then have "read_uncor_status f dev \<noteq> uncorrectable_errors dev" by auto
    with t h show "filter (unc_event e) ns =
            [pcie_event dev (uncor_severity (read_uncor_sever f dev) e)
               (''Uncorrectable('' @ uncor_class (read_uncor_sever f dev) e @
                '') Error set: '' @ desc e)
               (uncor_class (read_uncor_sever f dev) e)]"
      unfolding ns poll_unc_event[OF assms(1) e] unc_loop_single
      by (auto simp add: uncor_severity_def uncor_class_def)
    from t h show "mask_err e AND uncorrectable_errors dev' \<noteq> 0"
      by (simp add: dev' polled_device_def)
  next
    assume h: "e \<in> set pcie_aer_ues \<and> ecap_aer dev \<noteq> - 1 \<and>
      (notif_masked cfg \<or> mask_err e AND read_uncor_mask f dev = 0)"
    then have e: "e \<in> set pcie_aer_ues" by simp
    assume t: "mask_err e AND uncorrectable_errors dev \<noteq> 0 \<and>
        mask_err e AND read_uncor_status f dev = 0"
    then have "read_uncor_status f dev \<noteq> uncorrectable_errors dev" by auto
    with t h show "filter (unc_event e) ns =
            [pcie_event dev NOTIF_OKAY
               (''Uncorrectable('' @ uncor_class (read_uncor_sever f dev) e @
                '') Error cleared: '' @ desc e)
               (uncor_class (read_uncor_sever f dev) e)]"
      unfolding ns poll_unc_event[OF assms(1) e] unc_loop_single
      by (auto simp add: uncor_class_def)
  qed
  have c: "e \<in> set pcie_aer_ces \<and> ecap_aer dev \<noteq> - 1 \<and>
      (notif_masked cfg \<or> mask_err e AND read_cor_mask f dev = 0) \<longrightarrow>
       (mask_err e AND correctable_errors dev = 0 \<and>
        mask_err e AND read_cor_status f dev \<noteq> 0 \<longrightarrow>
          filter (cor_event e) ns =
            [pcie_event dev NOTIF_WARNING (''Correctable Error set: '' @ desc e)
               ''correctable''] \<and>
          mask_err e AND correctable_errors dev' \<noteq> 0) \<and>
       (mask_err e AND correctable_errors dev \<noteq> 0 \<and>
        mask_err e AND read_cor_status f dev = 0 \<longrightarrow>
          filter (cor_event e) ns =
            [pcie_event dev NOTIF_OKAY (''Correctable Error cleared: '' @ desc e)
               ''correctable''])"
  proof (intro impI conjI)
    assume h: "e \<in> set pcie_aer_ces \<and> ecap_aer dev \<noteq> - 1 \<and>
      (notif_masked cfg \<or> mask_err e AND read_cor_mask f dev = 0)"
    then have e: "e \<in> set pcie_aer_ces" by simp
    assume t: "mask_err e AND correctable_errors dev = 0 \<and>
        mask_err e AND read_cor_status f dev \<noteq> 0"
    then have "read_cor_status f dev \<noteq> correctable_errors dev" by auto
    with t h show "filter (cor_event e) ns =
            [pcie_event dev NOTIF_WARNING (''Correctable Error set: '' @ desc e)
               ''correctable'']"
      unfolding ns poll_cor_event[OF assms(1) e] cor_loop_single
      by auto
    from t h show "mask_err e AND correctable_errors dev' \<noteq> 0"
      by (simp add: dev' polled_device_def)
  next
    assume h: "e \<in> set pcie_aer_ces \<and> ecap_aer dev \<noteq> - 1 \<and>
      (notif_masked cfg \<or> mask_err e AND read_cor_mask f dev = 0)"
    then have e: "e \<in> set pcie_aer_ces" by simp
    assume t: "mask_err e AND correctable_errors dev \<noteq> 0 \<and>
        mask_err e AND read_cor_status f dev = 0"
    then have "read_cor_status f dev \<noteq> correctable_errors dev" by auto
    with t h show "filter (cor_event e) ns =
            [pcie_event dev NOTIF_OKAY (''Correctable Error cleared: '' @ desc e)
               ''correctable'']"
      unfolding ns poll_cor_event[OF assms(1) e] cor_loop_single
      by auto
  qed
  from b u c show ?thesis by (intro conjI)
qed

text \<open>
  The statement without the proviso on the mask fails: with the default switches, a Data
  Link Protocol bit that goes from clear to set while masked dispatches nothing.
\<close>

theorem masked_transition_silent:
  "mask_err err_dlp AND uncorrectable_errors dev_03 = 0 \<and>
   mask_err err_dlp AND read_uncor_status file_dlp_masked dev_03 \<noteq> 0 \<and>
   pcie_process_dev cfg_default (fops_file file_dlp_masked) dev_03 =
     (False, [], dev_03\<lparr>uncorrectable_errors := 0x10\<rparr>)"
  by code_simp

theorem transition_emits_one_event_witness:
  "filter (base_event err_fed)
     (fst (snd (pcie_process_dev cfg_default (fops_file file_errors) dev_03))) =
     [pcie_event dev_03 NOTIF_FAILURE ''Device Status Error set: Fatal Error'' ''fatal''] \<and>
   filter (unc_event err_malf_tlp)
     (fst (snd (pcie_process_dev cfg_default (fops_file file_errors) dev_03))) =
     [pcie_event dev_03 NOTIF_FAILURE ''Uncorrectable(fatal) Error set: Malformed TLP''
        ''fatal''] \<and>
   filter (cor_event err_rcvr)
     (fst (snd (pcie_process_dev cfg_default (fops_file file_errors) dev_03))) =
     [pcie_event dev_03 NOTIF_WARNING ''Correctable Error set: Receiver Error Status''
        ''correctable''] \<and>
   snd (snd (pcie_process_dev cfg_default (fops_file file_errors) dev_03)) = dev_03_errors \<and>
   filter (base_event err_fed)
     (fst (snd (pcie_process_dev cfg_default (fops_file file_quiet) dev_03_errors))) =
     [pcie_event dev_03 NOTIF_OKAY ''Device Status Error cleared: Fatal Error'' ''fatal''] \<and>
   filter (unc_event err_malf_tlp)
     (fst (snd (pcie_process_dev cfg_default (fops_file file_quiet) dev_03_errors))) =
     [pcie_event dev_03 NOTIF_OKAY ''Uncorrectable(non_fatal) Error cleared: Malformed TLP''
        ''non_fatal''] \<and>
   filter (cor_event err_rcvr)
     (fst (snd (pcie_process_dev cfg_default (fops_file file_quiet) dev_03_errors))) =
     [pcie_event dev_03 NOTIF_OKAY ''Correctable Error cleared: Receiver Error Status''
        ''correctable'']"
proof -
  note t1 = transition_emits_one_event[where fops = "fops_file file_errors" and dev = dev_03
      and cfg = cfg_default, OF open_fops_file process_dev_triple]
  note t2 = transition_emits_one_event[where fops = "fops_file file_quiet"
      and dev = dev_03_errors and cfg = cfg_default, OF open_fops_file process_dev_triple]
  have b: "err_fed \<in> set pcie_base_errors"
    "mask_err err_fed AND ucast (device_status dev_03) = 0"
    "mask_err err_fed AND ucast (read_devsta file_errors dev_03) \<noteq> 0"
    "devsta_severity err_fed = NOTIF_FAILURE" "devsta_class err_fed = ''fatal''"
    "desc err_fed = ''Fatal Error''"
    by code_simp+
  have u: "err_malf_tlp \<in> set pcie_aer_ues" "ecap_aer dev_03 \<noteq> - 1"
    "mask_err err_malf_tlp AND read_uncor_mask file_errors dev_03 = 0"
    "mask_err err_malf_tlp AND uncorrectable_errors dev_03 = 0"
    "mask_err err_malf_tlp AND read_uncor_status file_errors dev_03 \<noteq> 0"
    "uncor_severity (read_uncor_sever file_errors dev_03) err_malf_tlp = NOTIF_FAILURE"
    "uncor_class (read_uncor_sever file_errors dev_03) err_malf_tlp = ''fatal''"
    "desc err_malf_tlp = ''Malformed TLP''"
    by code_simp+
  have c: "err_rcvr \<in> set pcie_aer_ces"
    "mask_err err_rcvr AND read_cor_mask file_errors dev_03 = 0"
    "mask_err err_rcvr AND correctable_errors dev_03 = 0"
    "mask_err err_rcvr AND read_cor_status file_errors dev_03 \<noteq> 0"
    "desc err_rcvr = ''Receiver Error Status''"
    by code_simp+
  have d: "snd (snd (pcie_process_dev cfg_default (fops_file file_errors) dev_03)) =
      dev_03_errors"
    by code_simp
  have b2: "mask_err err_fed AND ucast (device_status dev_03_errors) \<noteq> 0"
    "mask_err err_fed AND ucast (read_devsta file_quiet dev_03_errors) = 0"
    "pcie_dev_name dev_03_errors = pcie_dev_name dev_03"
    by code_simp+
  have u2: "ecap_aer dev_03_errors \<noteq> - 1"
    "mask_err err_malf_tlp AND read_uncor_mask file_quiet dev_03_errors = 0"
    "mask_err err_malf_tlp AND uncorrectable_errors dev_03_errors \<noteq> 0"
    "mask_err err_malf_tlp AND read_uncor_status file_quiet dev_03_errors = 0"
    "uncor_class (read_uncor_sever file_quiet dev_03_errors) err_malf_tlp = ''non_fatal''"
    by code_simp+
  have c2: "mask_err err_rcvr AND read_cor_mask file_quiet dev_03_errors = 0"
    "mask_err err_rcvr AND correctable_errors dev_03_errors \<noteq> 0"
    "mask_err err_rcvr AND read_cor_status file_quiet dev_03_errors = 0"
    by code_simp+
  have e2: "pcie_event dev_03_errors = pcie_event dev_03"
    by (simp add: pcie_event_def b2(3) fun_eq_iff)
  from t1[where e = err_fed] b have 1: "filter (base_event err_fed)
     (fst (snd (pcie_process_dev cfg_default (fops_file file_errors) dev_03))) =
     [pcie_event dev_03 NOTIF_FAILURE ''Device Status Error set: Fatal Error'' ''fatal'']"
    by simp
  from t1[where e = err_malf_tlp] u have 2: "filter (unc_event err_malf_tlp)
     (fst (snd (pcie_process_dev cfg_default (fops_file file_errors) dev_03))) =
     [pcie_event dev_03 NOTIF_FAILURE ''Uncorrectable(fatal) Error set: Malformed TLP''
        ''fatal'']"
    by simp
  from t1[where e = err_rcvr] u(2) c have 3: "filter (cor_event err_rcvr)
     (fst (snd (pcie_process_dev cfg_default (fops_file file_errors) dev_03))) =
     [pcie_event dev_03 NOTIF_WARNING ''Correctable Error set: Receiver Error Status''
        ''correctable'']"
    by simp
  from t2[where e = err_fed] b(1,5,6) b2 have 4: "filter (base_event err_fed)
     (fst (snd (pcie_process_dev cfg_default (fops_file file_quiet) dev_03_errors))) =
     [pcie_event dev_03 NOTIF_OKAY ''Device Status Error cleared: Fatal Error'' ''fatal'']"
    by (simp add: e2)
  from t2[where e = err_malf_tlp] u(1,8) u2 have 5: "filter (unc_event err_malf_tlp)
     (fst (snd (pcie_process_dev cfg_default (fops_file file_quiet) dev_03_errors))) =
     [pcie_event dev_03 NOTIF_OKAY ''Uncorrectable(non_fatal) Error cleared: Malformed TLP''
        ''non_fatal'']"
    by (simp add: e2)
  from t2[where e = err_rcvr] c(1,5) u2(1) c2 have 6: "filter (cor_event err_rcvr)
     (fst (snd (pcie_process_dev cfg_default (fops_file file_quiet) dev_03_errors))) =
     [pcie_event dev_03 NOTIF_OKAY ''Correctable Error cleared: Receiver Error Status''
        ''correctable'']"
    by (simp add: e2)
  from 1 2 3 d 4 5 6 show ?thesis by (intro conjI)
qed

text \<open>
  C2. With persistent notifications off, a poll of a device that opens dispatches no
  notification of a register whose value just read equals the stored baseline. This is
  stated for each of the three registers: Device Status (low nibble), AER uncorrectable
  status, AER correctable status.
\<close>

theorem unchanged_register_emits_nothing:
  assumes "\<not> persistent cfg"
    and "fops_open fops (pcie_dev_addr dev) = Some f"
    and "pcie_process_dev cfg fops dev = (failed, ns, dev')"
  shows
    "(read_devsta f dev = device_status dev \<longrightarrow> filter base_register_event ns = []) \<and>
     (read_uncor_status f dev = uncorrectable_errors dev \<longrightarrow>
        filter unc_register_event ns = []) \<and>
     (read_cor_status f dev = correctable_errors dev \<longrightarrow> filter cor_register_event ns = [])"
proof -
  have ns: "ns = devsta_events cfg f dev @ uncor_events cfg f dev @ cor_events cfg f dev"
    using assms(3) process_dev_open[OF assms(2), of cfg] by simp
  have b: "filter base_register_event (uncor_events cfg f dev) = []"
    "filter base_register_event (cor_events cfg f dev) = []"
    by (rule filter_none; blast dest: uncor_events_register cor_events_register
        register_events_exclusive)+
  have u: "filter unc_register_event (devsta_events cfg f dev) = []"
    "filter unc_register_event (cor_events cfg f dev) = []"
    by (rule filter_none; blast dest: devsta_events_register cor_events_register
        register_events_exclusive)+
  have c: "filter cor_register_event (devsta_events cfg f dev) = []"
    "filter cor_register_event (uncor_events cfg f dev) = []"
    by (rule filter_none; blast dest: devsta_events_register uncor_events_register
        register_events_exclusive)+
  show ?thesis
  proof (intro conjI impI)
    assume "read_devsta f dev = device_status dev"
    with assms(1) have "devsta_events cfg f dev = []"
      by (simp add: devsta_events_def)
    then show "filter base_register_event ns = []"
      by (simp add: ns b)
  next
    assume "read_uncor_status f dev = uncorrectable_errors dev"
    with assms(1) have "uncor_events cfg f dev = []"
      by (simp add: uncor_events_def)
    then show "filter unc_register_event ns = []"
      by (simp add: ns u)
  next
    assume "read_cor_status f dev = correctable_errors dev"
    with assms(1) have "cor_events cfg f dev = []"
      by (simp add: cor_events_def)
    then show "filter cor_register_event ns = []"
      by (simp add: ns c)
  qed
qed

theorem unchanged_register_emits_nothing_witness:
  "\<not> persistent cfg_default \<and>
   read_devsta file_errors dev_03_errors = device_status dev_03_errors \<and>
   read_uncor_status file_errors dev_03_errors = uncorrectable_errors dev_03_errors \<and>
   read_cor_status file_errors dev_03_errors = correctable_errors dev_03_errors \<and>
   device_status dev_03_errors \<noteq> 0 \<and>
   filter base_register_event
     (fst (snd (pcie_process_dev cfg_default (fops_file file_errors) dev_03_errors))) = [] \<and>
   filter unc_register_event
     (fst (snd (pcie_process_dev cfg_default (fops_file file_errors) dev_03_errors))) = [] \<and>
   filter cor_register_event
     (fst (snd (pcie_process_dev cfg_default (fops_file file_errors) dev_03_errors))) = []"
proof -
  have h: "\<not> persistent cfg_default"
    "read_devsta file_errors dev_03_errors = device_status dev_03_errors"
    "read_uncor_status file_errors dev_03_errors = uncorrectable_errors dev_03_errors"
    "read_cor_status file_errors dev_03_errors = correctable_errors dev_03_errors"
    "device_status dev_03_errors \<noteq> 0"
    by code_simp+
  from unchanged_register_emits_nothing[where cfg = cfg_default
      and fops = "fops_file file_errors" and dev = dev_03_errors,
      OF h(1) open_fops_file process_dev_triple] h
  show ?thesis by simp
qed








text \<open>
  C4 (as amended). With persistent notifications on, over any number of consecutive poll
  cycles of a device in each of which a catalog bit is seen set (the open succeeds, the
  bit is set in the status register read and, for an AER bit, the device has AER and the
  bit is not masked unless masked errors are reported), every cycle dispatches exactly
  one "set" notification for the bit: \<open>N\<close> cycles dispatch \<open>N\<close> of them.
\<close>

theorem persistent_set_every_cycle:
  assumes "persistent cfg"
  shows
    "(e \<in> set pcie_base_errors \<and> (\<forall>fops\<in>set cycles. devsta_bit_seen fops dev e) \<longrightarrow>
        map (\<lambda>ns. length (filter (base_set_event e) ns)) (pcie_poll_cycles cfg cycles dev) =
          replicate (length cycles) 1 \<and>
        length (filter (base_set_event e) (concat (pcie_poll_cycles cfg cycles dev))) =
          length cycles) \<and>
     (e \<in> set pcie_aer_ues \<and> (\<forall>fops\<in>set cycles. uncor_bit_seen cfg fops dev e) \<longrightarrow>
        map (\<lambda>ns. length (filter (unc_set_event e) ns)) (pcie_poll_cycles cfg cycles dev) =
          replicate (length cycles) 1 \<and>
        length (filter (unc_set_event e) (concat (pcie_poll_cycles cfg cycles dev))) =
          length cycles) \<and>
     (e \<in> set pcie_aer_ces \<and> (\<forall>fops\<in>set cycles. cor_bit_seen cfg fops dev e) \<longrightarrow>
        map (\<lambda>ns. length (filter (cor_set_event e) ns)) (pcie_poll_cycles cfg cycles dev) =
          replicate (length cycles) 1 \<and>
        length (filter (cor_set_event e) (concat (pcie_poll_cycles cfg cycles dev))) =
          length cycles)"
proof -
  have b: "map (\<lambda>ns. length (filter (base_set_event e) ns)) (pcie_poll_cycles cfg cycles dev) =
          replicate (length cycles) 1"
    if "e \<in> set pcie_base_errors" "\<forall>fops\<in>set cycles. devsta_bit_seen fops dev e"
    by (rule poll_cycles_count[where P = "\<lambda>fops dev. devsta_bit_seen fops dev e"])
       (simp_all add: persistent_base_one assms that seen_static(1)[OF process_dev_static])
  have u: "map (\<lambda>ns. length (filter (unc_set_event e) ns)) (pcie_poll_cycles cfg cycles dev) =
          replicate (length cycles) 1"
    if "e \<in> set pcie_aer_ues" "\<forall>fops\<in>set cycles. uncor_bit_seen cfg fops dev e"
    by (rule poll_cycles_count[where P = "\<lambda>fops dev. uncor_bit_seen cfg fops dev e"])
       (simp_all add: persistent_unc_one assms that seen_static(2)[OF process_dev_static])
  have c: "map (\<lambda>ns. length (filter (cor_set_event e) ns)) (pcie_poll_cycles cfg cycles dev) =
          replicate (length cycles) 1"
    if "e \<in> set pcie_aer_ces" "\<forall>fops\<in>set cycles. cor_bit_seen cfg fops dev e"
    by (rule poll_cycles_count[where P = "\<lambda>fops dev. cor_bit_seen cfg fops dev e"])
       (simp_all add: persistent_cor_one assms that seen_static(3)[OF process_dev_static])
  show ?thesis
    using b u c count_concat by blast
qed

text \<open>
  Without the proviso on the mask the statement fails: with persistent notifications on
  and masked errors left out, a masked Data Link Protocol bit that is set dispatches
  nothing.
\<close>

theorem persistent_masked_bit_silent:
  "persistent cfg_persistent \<and> err_dlp \<in> set pcie_aer_ues \<and>
   mask_err err_dlp AND read_uncor_status file_dlp_masked dev_03 \<noteq> 0 \<and>
   pcie_process_dev cfg_persistent (fops_file file_dlp_masked) dev_03 =
     (False, [], dev_03\<lparr>uncorrectable_errors := 0x10\<rparr>)"
  by code_simp

theorem persistent_set_every_cycle_witness:
  "persistent cfg_persistent \<and>
   length (filter (base_set_event err_fed) (concat (pcie_poll_cycles cfg_persistent
     [fops_file file_errors, fops_file file_errors, fops_file file_errors] dev_03))) = 3 \<and>
   length (filter (unc_set_event err_malf_tlp) (concat (pcie_poll_cycles cfg_persistent
     [fops_file file_errors, fops_file file_errors, fops_file file_errors] dev_03))) = 3 \<and>
   length (filter (cor_set_event err_rcvr) (concat (pcie_poll_cycles cfg_persistent
     [fops_file file_errors, fops_file file_errors, fops_file file_errors] dev_03))) = 3"
proof -
  have p: "persistent cfg_persistent" by code_simp
  have e: "err_fed \<in> set pcie_base_errors" "err_malf_tlp \<in> set pcie_aer_ues"
    "err_rcvr \<in> set pcie_aer_ces"
    by code_simp+
  have s: "devsta_bit_seen (fops_file file_errors) dev_03 err_fed"
    "uncor_bit_seen cfg_persistent (fops_file file_errors) dev_03 err_malf_tlp"
    "cor_bit_seen cfg_persistent (fops_file file_errors) dev_03 err_rcvr"
    by code_simp+
  note t = persistent_set_every_cycle[where cfg = cfg_persistent and dev = dev_03
      and cycles = "[fops_file file_errors, fops_file file_errors, fops_file file_errors]",
      OF p]
  from t[where e = err_fed] t[where e = err_malf_tlp] t[where e = err_rcvr] p e s
  show ?thesis by simp
qed

text \<open>
  C5. With masked-error reporting off, a poll dispatches no "set" notification for an
  AER bit, uncorrectable or correctable, that is marked in the corresponding mask
  register, whatever the status register, the baseline and the persistent switch are.
\<close>

theorem masked_bit_never_set:
  assumes "\<not> notif_masked cfg"
    and "fops_open fops (pcie_dev_addr dev) = Some f"
    and "pcie_process_dev cfg fops dev = (failed, ns, dev')"
  shows
    "(e \<in> set pcie_aer_ues \<and> mask_err e AND read_uncor_mask f dev \<noteq> 0 \<longrightarrow>
        filter (unc_set_event e) ns = []) \<and>
     (e \<in> set pcie_aer_ces \<and> mask_err e AND read_cor_mask f dev \<noteq> 0 \<longrightarrow>
        filter (cor_set_event e) ns = [])"
proof -
  have ns: "ns = fst (snd (pcie_process_dev cfg fops dev))"
    using assms(3) by simp
  show ?thesis
  proof (intro conjI impI)
    assume h: "e \<in> set pcie_aer_ues \<and> mask_err e AND read_uncor_mask f dev \<noteq> 0"
    then have e: "e \<in> set pcie_aer_ues" by simp
    have "filter (unc_event e) ns = []"
      unfolding ns poll_unc_event[OF assms(2) e] unc_loop_single
      using h assms(1) by simp
    then show "filter (unc_set_event e) ns = []"
      by (rule filter_sub_empty[rotated]) (rule set_event_imp)
  next
    assume h: "e \<in> set pcie_aer_ces \<and> mask_err e AND read_cor_mask f dev \<noteq> 0"
    then have e: "e \<in> set pcie_aer_ces" by simp
    have "filter (cor_event e) ns = []"
      unfolding ns poll_cor_event[OF assms(2) e] cor_loop_single
      using h assms(1) by simp
    then show "filter (cor_set_event e) ns = []"
      by (rule filter_sub_empty[rotated]) (rule set_event_imp)
  qed
qed

theorem masked_bit_never_set_witness:
  "\<not> notif_masked cfg_persistent \<and> persistent cfg_persistent \<and>
   err_dlp \<in> set pcie_aer_ues \<and>
   mask_err err_dlp AND read_uncor_mask file_masked dev_03 \<noteq> 0 \<and>
   mask_err err_dlp AND read_uncor_status file_masked dev_03 \<noteq> 0 \<and>
   err_rcvr \<in> set pcie_aer_ces \<and>
   mask_err err_rcvr AND read_cor_mask file_masked dev_03 \<noteq> 0 \<and>
   mask_err err_rcvr AND read_cor_status file_masked dev_03 \<noteq> 0 \<and>
   filter (unc_set_event err_dlp)
     (fst (snd (pcie_process_dev cfg_persistent (fops_file file_masked) dev_03))) = [] \<and>
   filter (cor_set_event err_rcvr)
     (fst (snd (pcie_process_dev cfg_persistent (fops_file file_masked) dev_03))) = []"
proof -
  have h: "\<not> notif_masked cfg_persistent" "persistent cfg_persistent"
    "err_dlp \<in> set pcie_aer_ues"
    "mask_err err_dlp AND read_uncor_mask file_masked dev_03 \<noteq> 0"
    "mask_err err_dlp AND read_uncor_status file_masked dev_03 \<noteq> 0"
    "err_rcvr \<in> set pcie_aer_ces"
    "mask_err err_rcvr AND read_cor_mask file_masked dev_03 \<noteq> 0"
    "mask_err err_rcvr AND read_cor_status file_masked dev_03 \<noteq> 0"
    by code_simp+
  note t = masked_bit_never_set[where cfg = cfg_persistent and fops = "fops_file file_masked"
      and dev = dev_03, OF h(1) open_fops_file process_dev_triple]
  from t[where e = err_dlp] t[where e = err_rcvr] h show ?thesis by simp
qed

subsection \<open>Later cycles in which a bit keeps its value\<close>

lemma keeps_static:
  assumes "pcie_dev_addr d' = pcie_dev_addr d" "cap_exp d' = cap_exp d" "ecap_aer d' = ecap_aer d"
  shows "uncor_bit_keeps v fops d' e = uncor_bit_keeps v fops d e"
    "cor_bit_keeps v fops d' e = cor_bit_keeps v fops d e"
  using assms read_static[OF assms(2,3)]
  by (simp_all add: uncor_bit_keeps_def cor_bit_keeps_def split: option.splits)

lemma closed_no_aer_event:
  assumes "fops_open fops (pcie_dev_addr dev) = None"
  shows "filter (unc_event e) (fst (snd (pcie_process_dev cfg fops dev))) = []"
    "filter (cor_event e) (fst (snd (pcie_process_dev cfg fops dev))) = []"
    "snd (snd (pcie_process_dev cfg fops dev)) = dev"
  by (simp_all add: process_dev_closed[OF assms] unc_event_def unc_set_event_def
      unc_cleared_event_def cor_event_def cor_set_event_def cor_cleared_event_def)

lemma unc_kept_cycle:
  assumes e: "e \<in> set pcie_aer_ues"
    and b: "mask_err e AND uncorrectable_errors dev = mask_err e AND v"
    and k: "uncor_bit_keeps v fops dev e"
  shows "filter (unc_cleared_event e) (fst (snd (pcie_process_dev cfg fops dev))) = []"
    and "\<not> persistent cfg \<or> mask_err e AND v = 0 \<Longrightarrow>
      filter (unc_event e) (fst (snd (pcie_process_dev cfg fops dev))) = []"
    and "persistent cfg \<Longrightarrow> mask_err e AND v \<noteq> 0 \<Longrightarrow>
      length (filter (unc_set_event e) (fst (snd (pcie_process_dev cfg fops dev)))) =
        (if uncor_bit_seen cfg fops dev e then 1 else 0)"
    and "mask_err e AND uncorrectable_errors (snd (snd (pcie_process_dev cfg fops dev))) =
      mask_err e AND v"
proof -
  let ?ns = "fst (snd (pcie_process_dev cfg fops dev))"
  have sub: "filter (unc_cleared_event e) ?ns =
      filter (unc_cleared_event e) (filter (unc_event e) ?ns)"
    "filter (unc_set_event e) ?ns = filter (unc_set_event e) (filter (unc_event e) ?ns)"
    using filter_sub[of "unc_cleared_event e" "unc_event e" ?ns]
      filter_sub[of "unc_set_event e" "unc_event e" ?ns]
    by (simp_all add: set_event_imp)
  show "filter (unc_cleared_event e) ?ns = []"
  proof (cases "fops_open fops (pcie_dev_addr dev)")
    case None
    show ?thesis unfolding sub closed_no_aer_event[OF None] by simp
  next
    case (Some g)
    from k Some have s: "mask_err e AND read_uncor_status g dev = mask_err e AND v"
      by (simp add: uncor_bit_keeps_def)
    show ?thesis
      unfolding sub poll_unc_event[OF Some e] unc_loop_single
      using s b by (simp add: unc_cleared_event_def)
  qed
  show "filter (unc_event e) ?ns = []" if "\<not> persistent cfg \<or> mask_err e AND v = 0"
  proof (cases "fops_open fops (pcie_dev_addr dev)")
    case None
    show ?thesis by (rule closed_no_aer_event[OF None])
  next
    case (Some g)
    from k Some have s: "mask_err e AND read_uncor_status g dev = mask_err e AND v"
      by (simp add: uncor_bit_keeps_def)
    show ?thesis
      unfolding poll_unc_event[OF Some e] unc_loop_single
      using s b that by auto
  qed
  show "length (filter (unc_set_event e) ?ns) = (if uncor_bit_seen cfg fops dev e then 1 else 0)"
    if p: "persistent cfg" and v: "mask_err e AND v \<noteq> 0"
  proof (cases "uncor_bit_seen cfg fops dev e")
    case True
    with persistent_unc_one[OF p e True] show ?thesis by simp
  next
    case False
    have "filter (unc_event e) ?ns = []"
    proof (cases "fops_open fops (pcie_dev_addr dev)")
      case None
      show ?thesis by (rule closed_no_aer_event[OF None])
    next
      case (Some g)
      from k Some have s: "mask_err e AND read_uncor_status g dev = mask_err e AND v"
        by (simp add: uncor_bit_keeps_def)
      from False Some s v
      have m: "ecap_aer dev = - 1 \<or> (\<not> notif_masked cfg \<and> mask_err e AND read_uncor_mask g dev \<noteq> 0)"
        by (auto simp: uncor_bit_seen_def)
      show ?thesis
        unfolding poll_unc_event[OF Some e] unc_loop_single
        using m by auto
    qed
    with False show ?thesis unfolding sub by simp
  qed
  show "mask_err e AND uncorrectable_errors (snd (snd (pcie_process_dev cfg fops dev))) =
      mask_err e AND v"
  proof (cases "fops_open fops (pcie_dev_addr dev)")
    case None
    show ?thesis unfolding closed_no_aer_event[OF None] by (rule b)
  next
    case (Some g)
    from k Some have s: "mask_err e AND read_uncor_status g dev = mask_err e AND v"
      by (simp add: uncor_bit_keeps_def)
    show ?thesis
      unfolding poll_device[OF Some]
      using s b by (simp add: polled_device_def)
  qed
qed

lemma cor_kept_cycle:
  assumes e: "e \<in> set pcie_aer_ces"
    and b: "mask_err e AND correctable_errors dev = mask_err e AND v"
    and k: "cor_bit_keeps v fops dev e"
  shows "filter (cor_cleared_event e) (fst (snd (pcie_process_dev cfg fops dev))) = []"
    and "\<not> persistent cfg \<or> mask_err e AND v = 0 \<Longrightarrow>
      filter (cor_event e) (fst (snd (pcie_process_dev cfg fops dev))) = []"
    and "persistent cfg \<Longrightarrow> mask_err e AND v \<noteq> 0 \<Longrightarrow>
      length (filter (cor_set_event e) (fst (snd (pcie_process_dev cfg fops dev)))) =
        (if cor_bit_seen cfg fops dev e then 1 else 0)"
    and "mask_err e AND correctable_errors (snd (snd (pcie_process_dev cfg fops dev))) =
      mask_err e AND v"
proof -
  let ?ns = "fst (snd (pcie_process_dev cfg fops dev))"
  have sub: "filter (cor_cleared_event e) ?ns =
      filter (cor_cleared_event e) (filter (cor_event e) ?ns)"
    "filter (cor_set_event e) ?ns = filter (cor_set_event e) (filter (cor_event e) ?ns)"
    using filter_sub[of "cor_cleared_event e" "cor_event e" ?ns]
      filter_sub[of "cor_set_event e" "cor_event e" ?ns]
    by (simp_all add: set_event_imp)
  show "filter (cor_cleared_event e) ?ns = []"
  proof (cases "fops_open fops (pcie_dev_addr dev)")
    case None
    show ?thesis unfolding sub closed_no_aer_event[OF None] by simp
  next
    case (Some g)
    from k Some have s: "mask_err e AND read_cor_status g dev = mask_err e AND v"
      by (simp add: cor_bit_keeps_def)
    show ?thesis
      unfolding sub poll_cor_event[OF Some e] cor_loop_single
      using s b by (simp add: cor_cleared_event_def)
  qed
  show "filter (cor_event e) ?ns = []" if "\<not> persistent cfg \<or> mask_err e AND v = 0"
  proof (cases "fops_open fops (pcie_dev_addr dev)")
    case None
    show ?thesis by (rule closed_no_aer_event[OF None])
  next
    case (Some g)
    from k Some have s: "mask_err e AND read_cor_status g dev = mask_err e AND v"
      by (simp add: cor_bit_keeps_def)
    show ?thesis
      unfolding poll_cor_event[OF Some e] cor_loop_single
      using s b that by auto
  qed
  show "length (filter (cor_set_event e) ?ns) = (if cor_bit_seen cfg fops dev e then 1 else 0)"
    if p: "persistent cfg" and v: "mask_err e AND v \<noteq> 0"
  proof (cases "cor_bit_seen cfg fops dev e")
    case True
    with persistent_cor_one[OF p e True] show ?thesis by simp
  next
    case False
    have "filter (cor_event e) ?ns = []"
    proof (cases "fops_open fops (pcie_dev_addr dev)")
      case None
      show ?thesis by (rule closed_no_aer_event[OF None])
    next
      case (Some g)
      from k Some have s: "mask_err e AND read_cor_status g dev = mask_err e AND v"
        by (simp add: cor_bit_keeps_def)
      from False Some s v
      have m: "ecap_aer dev = - 1 \<or> (\<not> notif_masked cfg \<and> mask_err e AND read_cor_mask g dev \<noteq> 0)"
        by (auto simp: cor_bit_seen_def)
      show ?thesis
        unfolding poll_cor_event[OF Some e] cor_loop_single
        using m by auto
    qed
    with False show ?thesis unfolding sub by simp
  qed
  show "mask_err e AND correctable_errors (snd (snd (pcie_process_dev cfg fops dev))) =
      mask_err e AND v"
  proof (cases "fops_open fops (pcie_dev_addr dev)")
    case None
    show ?thesis unfolding closed_no_aer_event[OF None] by (rule b)
  next
    case (Some g)
    from k Some have s: "mask_err e AND read_cor_status g dev = mask_err e AND v"
      by (simp add: cor_bit_keeps_def)
    show ?thesis
      unfolding poll_device[OF Some]
      using s b by (simp add: polled_device_def)
  qed
qed

lemma unc_kept_cycles:
  assumes e: "e \<in> set pcie_aer_ues"
  shows "mask_err e AND uncorrectable_errors dev = mask_err e AND v \<Longrightarrow>
    \<forall>fops\<in>set later. uncor_bit_keeps v fops dev e \<Longrightarrow>
    filter (unc_cleared_event e) (concat (pcie_poll_cycles cfg later dev)) = [] \<and>
    (\<not> persistent cfg \<or> mask_err e AND v = 0 \<longrightarrow>
       filter (unc_event e) (concat (pcie_poll_cycles cfg later dev)) = []) \<and>
    (persistent cfg \<and> mask_err e AND v \<noteq> 0 \<longrightarrow>
       map (\<lambda>ns. length (filter (unc_set_event e) ns)) (pcie_poll_cycles cfg later dev) =
       map (\<lambda>fops. if uncor_bit_seen cfg fops dev e then 1 else 0) later)"
proof (induction later arbitrary: dev)
  case Nil
  show ?case by simp
next
  case (Cons fops rest)
  let ?d = "snd (snd (pcie_process_dev cfg fops dev))"
  from Cons.prems have k: "uncor_bit_keeps v fops dev e" by simp
  note c = unc_kept_cycle[OF e Cons.prems(1) k, of cfg]
  have r: "\<forall>fops'\<in>set rest. uncor_bit_keeps v fops' ?d e"
    using Cons.prems(2) by (simp add: keeps_static(1)[OF process_dev_static])
  note ih = Cons.IH[OF c(4) r]
  have sn: "uncor_bit_seen cfg fops' ?d e = uncor_bit_seen cfg fops' dev e" for fops'
    by (rule seen_static(2)[OF process_dev_static])
  have u: "pcie_poll_cycles cfg (fops # rest) dev =
      fst (snd (pcie_process_dev cfg fops dev)) # pcie_poll_cycles cfg rest ?d"
    by (simp add: split_beta)
  show ?case
    unfolding u using c(1,2,3) ih by (simp add: sn)
qed

lemma cor_kept_cycles:
  assumes e: "e \<in> set pcie_aer_ces"
  shows "mask_err e AND correctable_errors dev = mask_err e AND v \<Longrightarrow>
    \<forall>fops\<in>set later. cor_bit_keeps v fops dev e \<Longrightarrow>
    filter (cor_cleared_event e) (concat (pcie_poll_cycles cfg later dev)) = [] \<and>
    (\<not> persistent cfg \<or> mask_err e AND v = 0 \<longrightarrow>
       filter (cor_event e) (concat (pcie_poll_cycles cfg later dev)) = []) \<and>
    (persistent cfg \<and> mask_err e AND v \<noteq> 0 \<longrightarrow>
       map (\<lambda>ns. length (filter (cor_set_event e) ns)) (pcie_poll_cycles cfg later dev) =
       map (\<lambda>fops. if cor_bit_seen cfg fops dev e then 1 else 0) later)"
proof (induction later arbitrary: dev)
  case Nil
  show ?case by simp
next
  case (Cons fops rest)
  let ?d = "snd (snd (pcie_process_dev cfg fops dev))"
  from Cons.prems have k: "cor_bit_keeps v fops dev e" by simp
  note c = cor_kept_cycle[OF e Cons.prems(1) k, of cfg]
  have r: "\<forall>fops'\<in>set rest. cor_bit_keeps v fops' ?d e"
    using Cons.prems(2) by (simp add: keeps_static(2)[OF process_dev_static])
  note ih = Cons.IH[OF c(4) r]
  have sn: "cor_bit_seen cfg fops' ?d e = cor_bit_seen cfg fops' dev e" for fops'
    by (rule seen_static(3)[OF process_dev_static])
  have u: "pcie_poll_cycles cfg (fops # rest) dev =
      fst (snd (pcie_process_dev cfg fops dev)) # pcie_poll_cycles cfg rest ?d"
    by (simp add: split_beta)
  show ?case
    unfolding u using c(1,2,3) ih by (simp add: sn)
qed

text \<open>
  C10 (as amended). With masked-error reporting off, a poll of an AER device dispatches
  no notification at all, neither "set" nor "cleared", for an AER bit that is marked in
  the mask register; the baseline is overwritten with the status just read all the same,
  and the device record is the one a poll that reports masked errors would have left. So
  over any number of later cycles in which the bit keeps the value read (or the device
  does not open), whatever the mask register says by then: no "cleared" notification is
  dispatched for the bit; no notification at all when that value is clear, or when it is
  set and persistent notifications are off; and with persistent notifications on and
  the value set, each later cycle dispatches one "set" notification for the bit if it
  reads the bit unmasked, and none otherwise.
\<close>

theorem masked_bit_silent_baseline_overwritten:
  assumes "\<not> notif_masked cfg"
    and "ecap_aer dev \<noteq> - 1"
    and "fops_open fops (pcie_dev_addr dev) = Some f"
    and "pcie_process_dev cfg fops dev = (failed, ns, dev')"
  shows
    "(e \<in> set pcie_aer_ues \<and> mask_err e AND read_uncor_mask f dev \<noteq> 0 \<longrightarrow>
        filter (unc_event e) ns = [] \<and>
        ((\<forall>fops'\<in>set later. uncor_bit_keeps (read_uncor_status f dev) fops' dev e) \<longrightarrow>
           filter (unc_cleared_event e) (concat (pcie_poll_cycles cfg later dev')) = [] \<and>
           (\<not> persistent cfg \<or> mask_err e AND read_uncor_status f dev = 0 \<longrightarrow>
              filter (unc_event e) (concat (pcie_poll_cycles cfg later dev')) = []) \<and>
           (persistent cfg \<and> mask_err e AND read_uncor_status f dev \<noteq> 0 \<longrightarrow>
              map (\<lambda>ns. length (filter (unc_set_event e) ns))
                (pcie_poll_cycles cfg later dev') =
              map (\<lambda>fops'. if uncor_bit_seen cfg fops' dev e then 1 else 0) later))) \<and>
     (e \<in> set pcie_aer_ces \<and> mask_err e AND read_cor_mask f dev \<noteq> 0 \<longrightarrow>
        filter (cor_event e) ns = [] \<and>
        ((\<forall>fops'\<in>set later. cor_bit_keeps (read_cor_status f dev) fops' dev e) \<longrightarrow>
           filter (cor_cleared_event e) (concat (pcie_poll_cycles cfg later dev')) = [] \<and>
           (\<not> persistent cfg \<or> mask_err e AND read_cor_status f dev = 0 \<longrightarrow>
              filter (cor_event e) (concat (pcie_poll_cycles cfg later dev')) = []) \<and>
           (persistent cfg \<and> mask_err e AND read_cor_status f dev \<noteq> 0 \<longrightarrow>
              map (\<lambda>ns. length (filter (cor_set_event e) ns))
                (pcie_poll_cycles cfg later dev') =
              map (\<lambda>fops'. if cor_bit_seen cfg fops' dev e then 1 else 0) later))) \<and>
     uncorrectable_errors dev' = read_uncor_status f dev \<and>
     correctable_errors dev' = read_cor_status f dev \<and>
     snd (snd (pcie_process_dev (cfg\<lparr>notif_masked := True\<rparr>) fops dev)) = dev'"
proof -
  have ns: "ns = fst (snd (pcie_process_dev cfg fops dev))"
    and dev': "dev' = polled_device f dev"
    using assms(4) process_dev_open[OF assms(3), of cfg] by simp_all
  have bu: "uncorrectable_errors dev' = read_uncor_status f dev"
    and bc: "correctable_errors dev' = read_cor_status f dev"
    using assms(2) by (simp_all add: dev' polled_device_def)
  have st: "snd (snd (pcie_process_dev (cfg\<lparr>notif_masked := True\<rparr>) fops dev)) = dev'"
    by (simp add: process_dev_open[OF assms(3)] dev')
  have stat: "pcie_dev_addr dev' = pcie_dev_addr dev" "cap_exp dev' = cap_exp dev"
    "ecap_aer dev' = ecap_aer dev"
    by (simp_all add: dev')
  have U: "e \<in> set pcie_aer_ues \<and> mask_err e AND read_uncor_mask f dev \<noteq> 0 \<longrightarrow>
        filter (unc_event e) ns = [] \<and>
        ((\<forall>fops'\<in>set later. uncor_bit_keeps (read_uncor_status f dev) fops' dev e) \<longrightarrow>
           filter (unc_cleared_event e) (concat (pcie_poll_cycles cfg later dev')) = [] \<and>
           (\<not> persistent cfg \<or> mask_err e AND read_uncor_status f dev = 0 \<longrightarrow>
              filter (unc_event e) (concat (pcie_poll_cycles cfg later dev')) = []) \<and>
           (persistent cfg \<and> mask_err e AND read_uncor_status f dev \<noteq> 0 \<longrightarrow>
              map (\<lambda>ns. length (filter (unc_set_event e) ns))
                (pcie_poll_cycles cfg later dev') =
              map (\<lambda>fops'. if uncor_bit_seen cfg fops' dev e then 1 else 0) later))"
  proof (intro impI conjI)
    assume h: "e \<in> set pcie_aer_ues \<and> mask_err e AND read_uncor_mask f dev \<noteq> 0"
    then have e: "e \<in> set pcie_aer_ues" by simp
    show "filter (unc_event e) ns = []"
      unfolding ns poll_unc_event[OF assms(3) e] unc_loop_single
      using h assms(1) by simp
    assume "\<forall>fops'\<in>set later. uncor_bit_keeps (read_uncor_status f dev) fops' dev e"
    then have k: "\<forall>fops'\<in>set later. uncor_bit_keeps (read_uncor_status f dev) fops' dev' e"
      by (simp add: keeps_static(1)[OF stat])
    have b: "mask_err e AND uncorrectable_errors dev' = mask_err e AND read_uncor_status f dev"
      by (simp add: bu)
    note c = unc_kept_cycles[OF e b k, of cfg, unfolded seen_static(2)[OF stat]]
    from c show "filter (unc_cleared_event e) (concat (pcie_poll_cycles cfg later dev')) = []"
      by (rule conjunct1)
    from c show "filter (unc_event e) (concat (pcie_poll_cycles cfg later dev')) = []"
      if "\<not> persistent cfg \<or> mask_err e AND read_uncor_status f dev = 0"
      using that by blast
    from c show "map (\<lambda>ns. length (filter (unc_set_event e) ns))
          (pcie_poll_cycles cfg later dev') =
        map (\<lambda>fops'. if uncor_bit_seen cfg fops' dev e then 1 else 0) later"
      if "persistent cfg \<and> mask_err e AND read_uncor_status f dev \<noteq> 0"
      using that by blast
  qed
  have C: "e \<in> set pcie_aer_ces \<and> mask_err e AND read_cor_mask f dev \<noteq> 0 \<longrightarrow>
        filter (cor_event e) ns = [] \<and>
        ((\<forall>fops'\<in>set later. cor_bit_keeps (read_cor_status f dev) fops' dev e) \<longrightarrow>
           filter (cor_cleared_event e) (concat (pcie_poll_cycles cfg later dev')) = [] \<and>
           (\<not> persistent cfg \<or> mask_err e AND read_cor_status f dev = 0 \<longrightarrow>
              filter (cor_event e) (concat (pcie_poll_cycles cfg later dev')) = []) \<and>
           (persistent cfg \<and> mask_err e AND read_cor_status f dev \<noteq> 0 \<longrightarrow>
              map (\<lambda>ns. length (filter (cor_set_event e) ns))
                (pcie_poll_cycles cfg later dev') =
              map (\<lambda>fops'. if cor_bit_seen cfg fops' dev e then 1 else 0) later))"
  proof (intro impI conjI)
    assume h: "e \<in> set pcie_aer_ces \<and> mask_err e AND read_cor_mask f dev \<noteq> 0"
    then have e: "e \<in> set pcie_aer_ces" by simp
    show "filter (cor_event e) ns = []"
      unfolding ns poll_cor_event[OF assms(3) e] cor_loop_single
      using h assms(1) by simp
    assume "\<forall>fops'\<in>set later. cor_bit_keeps (read_cor_status f dev) fops' dev e"
    then have k: "\<forall>fops'\<in>set later. cor_bit_keeps (read_cor_status f dev) fops' dev' e"
      by (simp add: keeps_static(2)[OF stat])
    have b: "mask_err e AND correctable_errors dev' = mask_err e AND read_cor_status f dev"
      by (simp add: bc)
    note c = cor_kept_cycles[OF e b k, of cfg, unfolded seen_static(3)[OF stat]]
    from c show "filter (cor_cleared_event e) (concat (pcie_poll_cycles cfg later dev')) = []"
      by (rule conjunct1)
    from c show "filter (cor_event e) (concat (pcie_poll_cycles cfg later dev')) = []"
      if "\<not> persistent cfg \<or> mask_err e AND read_cor_status f dev = 0"
      using that by blast
    from c show "map (\<lambda>ns. length (filter (cor_set_event e) ns))
          (pcie_poll_cycles cfg later dev') =
        map (\<lambda>fops'. if cor_bit_seen cfg fops' dev e then 1 else 0) later"
      if "persistent cfg \<and> mask_err e AND read_cor_status f dev \<noteq> 0"
      using that by blast
  qed
  from U C bu bc st show ?thesis by (intro conjI)
qed

text \<open>
  Without the proviso on persistent notifications the statement fails: with persistent
  notifications on, the Data Link Protocol bit becomes set while masked, which
  dispatches nothing, and in the next cycle, the bit still set and the mask lifted, it
  is announced as set.
\<close>

theorem persistent_suppressed_set_announced:
  "\<not> notif_masked cfg_persistent \<and> err_dlp \<in> set pcie_aer_ues \<and>
   mask_err err_dlp AND read_uncor_mask file_masked dev_03 \<noteq> 0 \<and>
   mask_err err_dlp AND uncorrectable_errors dev_03 = 0 \<and>
   mask_err err_dlp AND read_uncor_status file_masked dev_03 \<noteq> 0 \<and>
   pcie_process_dev cfg_persistent (fops_file file_masked) dev_03 =
     (False, [], dev_03_masked) \<and>
   mask_err err_dlp AND read_uncor_status file_unmasked dev_03_masked \<noteq> 0 \<and>
   pcie_process_dev cfg_persistent (fops_file file_unmasked) dev_03_masked =
     (False,
      [pcie_event dev_03 NOTIF_WARNING
         ''Uncorrectable(non_fatal) Error set: Data Link Protocol'' ''non_fatal'',
       pcie_event dev_03 NOTIF_WARNING
         ''Correctable Error set: Receiver Error Status'' ''correctable''],
      dev_03_masked)"
  by code_simp

theorem masked_bit_silent_baseline_overwritten_witness:
  "\<not> notif_masked cfg_default \<and> \<not> persistent cfg_default \<and> ecap_aer dev_03 \<noteq> - 1 \<and>
   err_dlp \<in> set pcie_aer_ues \<and> err_rcvr \<in> set pcie_aer_ces \<and>
   mask_err err_dlp AND read_uncor_mask file_masked dev_03 \<noteq> 0 \<and>
   mask_err err_dlp AND uncorrectable_errors dev_03 = 0 \<and>
   mask_err err_dlp AND read_uncor_status file_masked dev_03 \<noteq> 0 \<and>
   mask_err err_dlp AND read_uncor_mask file_unmasked dev_03 = 0 \<and>
   pcie_process_dev cfg_default (fops_file file_masked) dev_03 = (False, [], dev_03_masked) \<and>
   filter (unc_event err_dlp) (concat (pcie_poll_cycles cfg_default
     [fops_file file_unmasked, fops_file file_unmasked] dev_03_masked)) = [] \<and>
   filter (cor_event err_rcvr) (concat (pcie_poll_cycles cfg_default
     [fops_file file_unmasked, fops_file file_unmasked] dev_03_masked)) = [] \<and>
   snd (snd (pcie_process_dev (cfg_default\<lparr>notif_masked := True\<rparr>) (fops_file file_masked)
     dev_03)) = dev_03_masked \<and>
   \<not> notif_masked cfg_persistent \<and> persistent cfg_persistent \<and>
   mask_err err_dlp AND read_uncor_mask file_mask_only dev_03_masked \<noteq> 0 \<and>
   mask_err err_dlp AND uncorrectable_errors dev_03_masked \<noteq> 0 \<and>
   mask_err err_dlp AND read_uncor_status file_mask_only dev_03_masked = 0 \<and>
   mask_err err_dlp AND read_uncor_mask file_quiet dev_03_masked = 0 \<and>
   pcie_process_dev cfg_persistent (fops_file file_mask_only) dev_03_masked =
     (False, [], dev_03) \<and>
   filter (unc_event err_dlp) (concat (pcie_poll_cycles cfg_persistent
     [fops_file file_quiet, fops_file file_quiet] dev_03)) = [] \<and>
   filter (cor_event err_rcvr) (concat (pcie_poll_cycles cfg_persistent
     [fops_file file_quiet, fops_file file_quiet] dev_03)) = [] \<and>
   pcie_process_dev cfg_persistent (fops_file file_masked) dev_03 =
     (False, [], dev_03_masked) \<and>
   filter (unc_cleared_event err_dlp) (concat (pcie_poll_cycles cfg_persistent
     [fops_file file_masked, fops_file file_unmasked] dev_03_masked)) = [] \<and>
   map (\<lambda>ns. length (filter (unc_set_event err_dlp) ns)) (pcie_poll_cycles cfg_persistent
     [fops_file file_masked, fops_file file_unmasked] dev_03_masked) = [0, 1]"
proof -
  have a: "err_dlp \<in> set pcie_aer_ues" "err_rcvr \<in> set pcie_aer_ces"
    by code_simp+
  have h: "\<not> notif_masked cfg_default" "ecap_aer dev_03 \<noteq> - 1"
    "\<not> persistent cfg_default"
    "mask_err err_dlp AND read_uncor_mask file_masked dev_03 \<noteq> 0"
    "mask_err err_dlp AND uncorrectable_errors dev_03 = 0"
    "mask_err err_dlp AND read_uncor_status file_masked dev_03 \<noteq> 0"
    "mask_err err_dlp AND read_uncor_mask file_unmasked dev_03 = 0"
    "mask_err err_rcvr AND read_cor_mask file_masked dev_03 \<noteq> 0"
    "uncor_bit_keeps (read_uncor_status file_masked dev_03) (fops_file file_unmasked)
       dev_03 err_dlp"
    "cor_bit_keeps (read_cor_status file_masked dev_03) (fops_file file_unmasked)
       dev_03 err_rcvr"
    by code_simp+
  have p: "pcie_process_dev cfg_default (fops_file file_masked) dev_03 =
      (False, [], dev_03_masked)"
    by code_simp
  note t = masked_bit_silent_baseline_overwritten[where cfg = cfg_default
      and fops = "fops_file file_masked" and dev = dev_03
      and later = "[fops_file file_unmasked, fops_file file_unmasked]",
      OF h(1,2) open_fops_file p]
  from t[where e = err_dlp] a h
  have t1: "filter (unc_event err_dlp) (concat (pcie_poll_cycles cfg_default
      [fops_file file_unmasked, fops_file file_unmasked] dev_03_masked)) = []"
    by simp
  from t[where e = err_rcvr] a h
  have t2: "filter (cor_event err_rcvr) (concat (pcie_poll_cycles cfg_default
      [fops_file file_unmasked, fops_file file_unmasked] dev_03_masked)) = []"
    by simp
  from t[where e = err_dlp]
  have t3: "snd (snd (pcie_process_dev (cfg_default\<lparr>notif_masked := True\<rparr>)
      (fops_file file_masked) dev_03)) = dev_03_masked"
    by simp
  have k: "\<not> notif_masked cfg_persistent" "ecap_aer dev_03_masked \<noteq> - 1"
    "persistent cfg_persistent"
    "mask_err err_dlp AND read_uncor_mask file_mask_only dev_03_masked \<noteq> 0"
    "mask_err err_dlp AND uncorrectable_errors dev_03_masked \<noteq> 0"
    "mask_err err_dlp AND read_uncor_status file_mask_only dev_03_masked = 0"
    "mask_err err_dlp AND read_uncor_mask file_quiet dev_03_masked = 0"
    "mask_err err_rcvr AND read_cor_mask file_mask_only dev_03_masked \<noteq> 0"
    "mask_err err_rcvr AND read_cor_status file_mask_only dev_03_masked = 0"
    "uncor_bit_keeps (read_uncor_status file_mask_only dev_03_masked) (fops_file file_quiet)
       dev_03_masked err_dlp"
    "cor_bit_keeps (read_cor_status file_mask_only dev_03_masked) (fops_file file_quiet)
       dev_03_masked err_rcvr"
    by code_simp+
  have q: "pcie_process_dev cfg_persistent (fops_file file_mask_only) dev_03_masked =
      (False, [], dev_03)"
    by code_simp
  note u = masked_bit_silent_baseline_overwritten[where cfg = cfg_persistent
      and fops = "fops_file file_mask_only" and dev = dev_03_masked
      and later = "[fops_file file_quiet, fops_file file_quiet]",
      OF k(1,2) open_fops_file q]
  from u[where e = err_dlp] a k
  have u1: "filter (unc_event err_dlp) (concat (pcie_poll_cycles cfg_persistent
      [fops_file file_quiet, fops_file file_quiet] dev_03)) = []"
    by simp
  from u[where e = err_rcvr] a k
  have u2: "filter (cor_event err_rcvr) (concat (pcie_poll_cycles cfg_persistent
      [fops_file file_quiet, fops_file file_quiet] dev_03)) = []"
    by simp
  have s: "uncor_bit_keeps (read_uncor_status file_masked dev_03) (fops_file file_masked)
       dev_03 err_dlp"
    "\<not> uncor_bit_seen cfg_persistent (fops_file file_masked) dev_03 err_dlp"
    "uncor_bit_seen cfg_persistent (fops_file file_unmasked) dev_03 err_dlp"
    by code_simp+
  have r: "pcie_process_dev cfg_persistent (fops_file file_masked) dev_03 =
      (False, [], dev_03_masked)"
    by code_simp
  note w = masked_bit_silent_baseline_overwritten[where cfg = cfg_persistent
      and fops = "fops_file file_masked" and dev = dev_03 and e = err_dlp
      and later = "[fops_file file_masked, fops_file file_unmasked]",
      OF k(1) h(2) open_fops_file r]
  from w a h k s
  have w1: "filter (unc_cleared_event err_dlp) (concat (pcie_poll_cycles cfg_persistent
      [fops_file file_masked, fops_file file_unmasked] dev_03_masked)) = []"
    and w2: "map (\<lambda>ns. length (filter (unc_set_event err_dlp) ns))
      (pcie_poll_cycles cfg_persistent
        [fops_file file_masked, fops_file file_unmasked] dev_03_masked) = [0, 1]"
    by simp_all
  from a h p t1 t2 t3 k q u1 u2 r w1 w2 show ?thesis by (intro conjI)
qed

section \<open>Claims about the capability walker and the registry\<close>

lemma add_devices_acc:
  "\<forall>d\<in>set acc. cap_exp d = - 1 \<Longrightarrow>
   \<forall>d\<in>set (foldl (\<lambda>l (dm, b, d, f). pcie_add_device l dm b d f) acc addrs). cap_exp d = - 1"
proof (induction addrs arbitrary: acc)
  case Nil
  then show ?case by simp
next
  case (Cons a addrs)
  obtain dm b d f where a: "a = (dm, b, d, f)" by (cases a) auto
  from Cons.prems have "\<forall>x\<in>set (pcie_add_device acc dm b d f). cap_exp x = - 1"
    by (auto simp: pcie_add_device_def)
  from Cons.IH[OF this] a show ?case by simp
qed

lemma add_devices_cap: "\<forall>d\<in>set (pcie_add_devices addrs). cap_exp d = - 1"
  unfolding pcie_add_devices_def by (rule add_devices_acc) simp

lemma preprocess_dev_kept:
  "cap_exp dev = - 1 \<Longrightarrow> pcie_preprocess_dev fops dev = Some (Some d') \<Longrightarrow> cap_exp d' \<noteq> - 1"
  by (auto simp: pcie_preprocess_dev_def split: option.splits if_splits)

lemma preprocess_loop_kept:
  "\<forall>d\<in>set devs. cap_exp d = - 1 \<Longrightarrow> pcie_preprocess_devices_loop fops devs = Some devs' \<Longrightarrow>
   \<forall>d\<in>set devs'. cap_exp d \<noteq> - 1"
proof (induction devs arbitrary: devs')
  case Nil
  then show ?case by simp
next
  case (Cons dev devs)
  from Cons.prems(2) obtain r rest where
    r: "pcie_preprocess_dev fops dev = Some r"
    and rest: "pcie_preprocess_devices_loop fops devs = Some rest"
    and devs': "devs' = (case r of None \<Rightarrow> rest | Some d \<Rightarrow> d # rest)"
    by (auto split: option.splits)
  from Cons.IH[OF _ rest] Cons.prems(1) have ih: "\<forall>d\<in>set rest. cap_exp d \<noteq> - 1" by simp
  show ?case
  proof (cases r)
    case None
    with devs' ih show ?thesis by simp
  next
    case (Some d)
    with r Cons.prems(1) have "cap_exp d \<noteq> - 1"
      using preprocess_dev_kept[of dev fops d] by simp
    with Some devs' ih show ?thesis by simp
  qed
qed

lemma read16_cong: "f 2 pos = g 2 pos \<Longrightarrow> pcie_read16 f pos = pcie_read16 g pos"
  by (simp add: pcie_read16_def pcie_read_def)

lemma process_dev_no_aer:
  assumes "ecap_aer d = - 1"
    and "fops_open fo (pcie_dev_addr d) = Some f" "fops_open fo' (pcie_dev_addr d) = Some g"
    and "f 2 (cap_exp d + PCI_EXP_DEVSTA) = g 2 (cap_exp d + PCI_EXP_DEVSTA)"
  shows "pcie_process_dev cfg fo d = pcie_process_dev cfg fo' d"
    and "uncorrectable_errors (snd (snd (pcie_process_dev cfg fo d))) = uncorrectable_errors d"
    and "correctable_errors (snd (snd (pcie_process_dev cfg fo d))) = correctable_errors d"
proof -
  have r: "read_devsta f d = read_devsta g d"
    using read16_cong[where f = f and g = g, OF assms(4)] by (simp add: read_devsta_def)
  show "pcie_process_dev cfg fo d = pcie_process_dev cfg fo' d"
    unfolding process_dev_open[OF assms(2)] process_dev_open[OF assms(3)]
      devsta_events_def uncor_events_def cor_events_def polled_device_def r
    by (simp add: assms(1))
  show "uncorrectable_errors (snd (snd (pcie_process_dev cfg fo d))) = uncorrectable_errors d"
    "correctable_errors (snd (snd (pcie_process_dev cfg fo d))) = correctable_errors d"
    using assms(1) by (simp_all add: process_dev_open[OF assms(2)] polled_device_def)
qed

lemma process_devices_offsets:
  "pcie_process_devices cfg fo (Some devs) = (ret, ns, devs') \<Longrightarrow>
   \<exists>ds. devs' = Some ds \<and> map cap_exp ds = map cap_exp devs \<and>
        map ecap_aer ds = map ecap_aer devs"
  using loop_devices[of cfg fo devs 0]
  by (auto simp: pcie_process_devices_def split_beta Let_def process_dev_static)

text \<open>
  C8. When the startup pruning pass over the enumerated registry returns, every device
  left has a PCI Express capability offset, and a poll cycle leaves the offsets of all
  registered devices as they are, so no device without the offset is ever polled. The
  poll of a registered device without AER offset depends on the opened file only through
  the two bytes of the Device Status register: two files that agree there give the same
  notifications and the same record, whatever their AER registers hold, and the AER
  snapshot fields are left untouched.
\<close>

theorem pruned_registry_polling:
  assumes "pcie_preprocess_devices fops (Some (pcie_add_devices addrs)) = Some (Some devs)"
  shows
    "(\<forall>d\<in>set devs. cap_exp d \<noteq> - 1) \<and>
     (\<forall>d\<in>set devs. ecap_aer d = - 1 \<longrightarrow>
        (\<forall>cfg fo fo' f g.
           fops_open fo (pcie_dev_addr d) = Some f \<and> fops_open fo' (pcie_dev_addr d) = Some g \<and>
           f 2 (cap_exp d + PCI_EXP_DEVSTA) = g 2 (cap_exp d + PCI_EXP_DEVSTA) \<longrightarrow>
           pcie_process_dev cfg fo d = pcie_process_dev cfg fo' d \<and>
           uncorrectable_errors (snd (snd (pcie_process_dev cfg fo d))) = uncorrectable_errors d \<and>
           correctable_errors (snd (snd (pcie_process_dev cfg fo d))) = correctable_errors d)) \<and>
     (\<forall>cfg fo ret ns devs'. pcie_process_devices cfg fo (Some devs) = (ret, ns, devs') \<longrightarrow>
        (\<exists>ds. devs' = Some ds \<and> map cap_exp ds = map cap_exp devs \<and>
              map ecap_aer ds = map ecap_aer devs))"
proof -
  from assms have "pcie_preprocess_devices_loop fops (pcie_add_devices addrs) = Some devs"
    by (auto simp: pcie_preprocess_devices_def)
  from preprocess_loop_kept[OF add_devices_cap this]
  have 1: "\<forall>d\<in>set devs. cap_exp d \<noteq> - 1" .
  have 2: "\<forall>d\<in>set devs. ecap_aer d = - 1 \<longrightarrow>
        (\<forall>cfg fo fo' f g.
           fops_open fo (pcie_dev_addr d) = Some f \<and> fops_open fo' (pcie_dev_addr d) = Some g \<and>
           f 2 (cap_exp d + PCI_EXP_DEVSTA) = g 2 (cap_exp d + PCI_EXP_DEVSTA) \<longrightarrow>
           pcie_process_dev cfg fo d = pcie_process_dev cfg fo' d \<and>
           uncorrectable_errors (snd (snd (pcie_process_dev cfg fo d))) = uncorrectable_errors d \<and>
           correctable_errors (snd (snd (pcie_process_dev cfg fo d))) = correctable_errors d)"
    using process_dev_no_aer by blast
  have 3: "\<forall>cfg fo ret ns devs'. pcie_process_devices cfg fo (Some devs) = (ret, ns, devs') \<longrightarrow>
        (\<exists>ds. devs' = Some ds \<and> map cap_exp ds = map cap_exp devs \<and>
              map ecap_aer ds = map ecap_aer devs)"
    using process_devices_offsets by blast
  from 1 2 3 show ?thesis by (intro conjI)
qed

theorem pruned_registry_polling_witness:
  "pcie_preprocess_devices
     (fops_table [((0, 3, 0, 0), file_caps), ((0, 4, 0, 0), file_quiet), ((0, 6, 0, 0), file_aer)])
     (Some (pcie_add_devices [(0, 3, 0, 0), (0, 4, 0, 0), (0, 5, 0, 0), (0, 6, 0, 0)])) =
     Some (Some [dev_03_caps, dev_06]) \<and>
   cap_exp dev_03_caps \<noteq> - 1 \<and> cap_exp dev_06 \<noteq> - 1 \<and> ecap_aer dev_03_caps = - 1 \<and>
   file_caps 2 (cap_exp dev_03_caps + PCI_EXP_DEVSTA) =
     file_errors 2 (cap_exp dev_03_caps + PCI_EXP_DEVSTA) \<and>
   pcie_process_dev cfg_persistent (fops_file file_caps) dev_03_caps =
     pcie_process_dev cfg_persistent (fops_file file_errors) dev_03_caps"
proof -
  have p: "pcie_preprocess_devices
     (fops_table [((0, 3, 0, 0), file_caps), ((0, 4, 0, 0), file_quiet), ((0, 6, 0, 0), file_aer)])
     (Some (pcie_add_devices [(0, 3, 0, 0), (0, 4, 0, 0), (0, 5, 0, 0), (0, 6, 0, 0)])) =
     Some (Some [dev_03_caps, dev_06])"
    by code_simp
  have h: "ecap_aer dev_03_caps = - 1"
    "file_caps 2 (cap_exp dev_03_caps + PCI_EXP_DEVSTA) =
     file_errors 2 (cap_exp dev_03_caps + PCI_EXP_DEVSTA)"
    by code_simp+
  note t = pruned_registry_polling[OF p]
  from t h p show ?thesis
    by (simp add: open_fops_file)
qed

lemma fuel_imp_loop:
  "pcie_find_cap_exp_fuel n f pos = Some r \<Longrightarrow> pcie_find_cap_exp_loop f pos = Some r"
proof (induction n arbitrary: pos)
  case 0
  then show ?case
    by (subst pcie_find_cap_exp_loop.simps) (simp split: if_splits)
next
  case (Suc n)
  show ?case
  proof (cases "pos \<noteq> 0 \<and> pcie_read8 f (pos + PCI_CAP_LIST_ID) \<noteq> 0xff \<and>
      pcie_read8 f (pos + PCI_CAP_LIST_ID) \<noteq> PCI_CAP_ID_EXP")
    case True
    with Suc.prems have
      "pcie_find_cap_exp_fuel n f (uint (pcie_read8 f (pos + PCI_CAP_LIST_NEXT) AND NOT 3)) = Some r"
      by simp
    from Suc.IH[OF this] True show ?thesis
      by (subst pcie_find_cap_exp_loop.simps) simp
  next
    case False
    with Suc.prems show ?thesis
      by (subst pcie_find_cap_exp_loop.simps) (auto split: if_splits)
  qed
qed

lemma loop_imp_fuel:
  assumes "pcie_find_cap_exp_loop f pos = Some r"
  shows "\<exists>n. pcie_find_cap_exp_fuel n f pos = Some r"
proof (rule pcie_find_cap_exp_loop.raw_induct
    [where P = "\<lambda>f pos r. \<exists>n. pcie_find_cap_exp_fuel n f pos = Some r", OF _ assms])
  fix loop :: "pcie_file \<Rightarrow> int \<Rightarrow> int option" and f pos r
  assume IH: "\<And>f pos r. loop f pos = Some r \<Longrightarrow> \<exists>n. pcie_find_cap_exp_fuel n f pos = Some r"
  assume eq: "(if pos \<noteq> 0 then
       (if pcie_read8 f (pos + PCI_CAP_LIST_ID) = 0xff then Some (- 1)
        else if pcie_read8 f (pos + PCI_CAP_LIST_ID) = PCI_CAP_ID_EXP then Some pos
        else loop f (uint (pcie_read8 f (pos + PCI_CAP_LIST_NEXT) AND NOT 3)))
     else Some (- 1)) = Some r"
  show "\<exists>n. pcie_find_cap_exp_fuel n f pos = Some r"
  proof (cases "pos \<noteq> 0 \<and> pcie_read8 f (pos + PCI_CAP_LIST_ID) \<noteq> 0xff \<and>
      pcie_read8 f (pos + PCI_CAP_LIST_ID) \<noteq> PCI_CAP_ID_EXP")
    case True
    with eq have
      "loop f (uint (pcie_read8 f (pos + PCI_CAP_LIST_NEXT) AND NOT 3)) = Some r"
      by simp
    from IH[OF this] obtain n where
      "pcie_find_cap_exp_fuel n f (uint (pcie_read8 f (pos + PCI_CAP_LIST_NEXT) AND NOT 3)) = Some r"
      by blast
    with True have "pcie_find_cap_exp_fuel (Suc n) f pos = Some r" by simp
    then show ?thesis by blast
  next
    case False
    with eq have "pcie_find_cap_exp_fuel (Suc 0) f pos = Some r"
      by (auto split: if_splits)
    then show ?thesis by blast
  qed
qed

lemma cyclic_step:
  "uint (pcie_read8 file_cyclic PCI_CAPABILITY_LIST AND NOT 3) = 0x40"
  "pcie_read8 file_cyclic (0x40 + PCI_CAP_LIST_ID) = 0x01"
  "uint (pcie_read8 file_cyclic (0x40 + PCI_CAP_LIST_NEXT) AND NOT 3) = 0x40"
  by code_simp+

lemma cyclic_fuel: "pcie_find_cap_exp_fuel n file_cyclic 0x40 = None"
proof (induction n)
  case 0
  show ?case by simp
next
  case (Suc n)
  show ?case
    unfolding pcie_find_cap_exp_fuel.simps cyclic_step
    using Suc by (simp add: PCI_CAP_ID_EXP_def)
qed

text \<open>
  C9 (as amended). The capability-list walk has no iteration cap. It returns with a
  result exactly when following the next pointers from the capability pointer reaches,
  after some finite number of entries, a zero pointer, an entry with ID 0xFF or the PCI
  Express capability; and it never returns exactly when no number of entries is enough.
\<close>

theorem cap_walk_returns_iff:
  "((pcie_find_cap_exp f = Some r) =
    (\<exists>n. pcie_find_cap_exp_fuel n f (uint (pcie_read8 f PCI_CAPABILITY_LIST AND NOT 3)) =
       Some r)) \<and>
   ((pcie_find_cap_exp f = None) =
    (\<forall>n. pcie_find_cap_exp_fuel n f (uint (pcie_read8 f PCI_CAPABILITY_LIST AND NOT 3)) =
       None))"
proof -
  let ?p = "uint (pcie_read8 f PCI_CAPABILITY_LIST AND NOT 3)"
  have 1: "(pcie_find_cap_exp_loop f ?p = Some r) =
      (\<exists>n. pcie_find_cap_exp_fuel n f ?p = Some r)" for r
    using fuel_imp_loop loop_imp_fuel by blast
  have 2: "(pcie_find_cap_exp_loop f ?p = None) = (\<forall>n. pcie_find_cap_exp_fuel n f ?p = None)"
  proof
    assume n: "pcie_find_cap_exp_loop f ?p = None"
    show "\<forall>n. pcie_find_cap_exp_fuel n f ?p = None"
    proof
      fix k
      show "pcie_find_cap_exp_fuel k f ?p = None"
      proof (cases "pcie_find_cap_exp_fuel k f ?p")
        case None
        then show ?thesis .
      next
        case (Some y)
        from fuel_imp_loop[OF this] n show ?thesis by simp
      qed
    qed
  next
    assume a: "\<forall>n. pcie_find_cap_exp_fuel n f ?p = None"
    show "pcie_find_cap_exp_loop f ?p = None"
    proof (cases "pcie_find_cap_exp_loop f ?p")
      case None
      then show ?thesis .
    next
      case (Some y)
      from loop_imp_fuel[OF this] a show ?thesis by simp
    qed
  qed
  from 1 2 show ?thesis
    unfolding pcie_find_cap_exp_def by (intro conjI)
qed

text \<open>On the cyclic list the walk does not return.\<close>

theorem cap_walk_cyclic_never_returns: "pcie_find_cap_exp file_cyclic = None"
proof (cases "pcie_find_cap_exp file_cyclic")
  case None
  then show ?thesis .
next
  case (Some r)
  then have "pcie_find_cap_exp_loop file_cyclic 0x40 = Some r"
    unfolding pcie_find_cap_exp_def cyclic_step .
  from loop_imp_fuel[OF this] show ?thesis
    by (simp add: cyclic_fuel)
qed

theorem cap_walk_returns_iff_witness:
  "pcie_find_cap_exp_fuel 2 file_caps (uint (pcie_read8 file_caps PCI_CAPABILITY_LIST AND NOT 3))
     = Some 0x50 \<and>
   pcie_find_cap_exp file_caps = Some 0x50"
proof -
  have h: "pcie_find_cap_exp_fuel 2 file_caps
      (uint (pcie_read8 file_caps PCI_CAPABILITY_LIST AND NOT 3)) = Some 0x50"
    by code_simp
  from cap_walk_returns_iff[of file_caps "0x50"] h show ?thesis by blast
qed

section \<open>Claims about the log extraction pipeline\<close>

lemma here_literal:
  "fnmatch_here (map (\<lambda>c. [c]) w @ pat) s \<longleftrightarrow>
     prefix w s \<and> fnmatch_here pat (drop (length w) s)"
proof (induction w arbitrary: s)
  case Nil
  show ?case by simp
next
  case (Cons a w)
  then show ?case by (cases s) auto
qed

lemma here_either:
  "fnmatch_here ([a, b] # pat) s \<longleftrightarrow>
     (\<exists>t. (s = a # t \<or> s = b # t) \<and> fnmatch_here pat t)"
  by (cases s) auto

lemma prefix_split:
  "prefix (u @ w) s \<longleftrightarrow> prefix u s \<and> prefix w (drop (length u) s)"
proof (induction u arbitrary: s)
  case Nil
  show ?case by simp
next
  case (Cons a u)
  then show ?case by (cases s) auto
qed

lemma here_fatal:
  "fnmatch_here pat_fatal s \<longleftrightarrow> prefix ''fatal'' s \<or> prefix ''Fatal'' s"
proof -
  have p: "pat_fatal = ''fF'' # (map (\<lambda>c. [c]) ''atal'' @ [])"
    by (simp add: pat_fatal_def)
  show ?thesis
    unfolding p here_either here_literal
    by (cases s) auto
qed

lemma here_non_fatal:
  "fnmatch_here pat_non_fatal s \<longleftrightarrow>
     prefix ''non-fatal'' s \<or> prefix ''Non-fatal'' s \<or>
     prefix ''non-Fatal'' s \<or> prefix ''Non-Fatal'' s"
proof -
  have p: "pat_non_fatal = ''nN'' # (map (\<lambda>c. [c]) ''on-'' @ pat_fatal)"
    by (simp add: pat_non_fatal_def pat_fatal_def)
  have q: "prefix ''on-fatal'' t \<longleftrightarrow> prefix ''on-'' t \<and> prefix ''fatal'' (drop (length ''on-'') t)"
    "prefix ''on-Fatal'' t \<longleftrightarrow> prefix ''on-'' t \<and> prefix ''Fatal'' (drop (length ''on-'') t)"
    for t
    using prefix_split[of "''on-''" "''fatal''" t] prefix_split[of "''on-''" "''Fatal''" t]
    by simp_all
  have r: "prefix (c # w) s \<longleftrightarrow> (\<exists>t. s = c # t \<and> prefix w t)" for c w
    by (cases s) auto
  show ?thesis
    unfolding p here_either here_literal here_fatal r q by blast
qed

lemma star_sublist:
  assumes "\<And>s. fnmatch_here pat s \<longleftrightarrow> (\<exists>w\<in>set ws. prefix w s)" "[] \<notin> set ws"
  shows "fnmatch_star pat v \<longleftrightarrow> (\<exists>w\<in>set ws. sublist w v)"
proof (induction v)
  case Nil
  show ?case using assms by (auto simp: sublist_Nil_right)
next
  case (Cons c v)
  show ?case
    unfolding fnmatch_star.simps Cons.IH assms(1) sublist_Cons_right by blast
qed

lemma star_non_fatal: "fnmatch_star pat_non_fatal v \<longleftrightarrow> mentions_non_fatal v"
  using star_sublist[of pat_non_fatal "[''non-fatal'', ''Non-fatal'', ''non-Fatal'', ''Non-Fatal'']" v]
  by (simp add: here_non_fatal mentions_non_fatal_def)

lemma star_fatal: "fnmatch_star pat_fatal v \<longleftrightarrow> mentions_fatal v"
  using star_sublist[of pat_fatal "[''fatal'', ''Fatal'']" v]
  by (simp add: here_fatal mentions_fatal_def)

lemma item_kinds_exclusive: "is_severity_item it \<Longrightarrow> \<not> is_device_item it"
  by (cases "item_name it")
     (auto simp: is_severity_item_def is_device_item_def PCIE_LOG_SEVERITY_def PCIE_LOG_DEV_def)

lemma parse_loop_Cons:
  "pcie_parse_msg_loop (item # items) n =
    (if item_value item = [] then n else pcie_parse_msg_loop items (parse_step item n))"
  by (simp add: parse_step_def is_severity_item_def is_device_item_def star_non_fatal star_fatal
      PCIE_SEV_NOFATAL_def PCIE_SEV_FATAL_def PCIE_SEV_CE_def sstrncpy_def
      DATA_MAX_NAME_LEN_def plugin_notification_meta_add_string_def)

lemma parse_loop_fold:
  "pcie_parse_msg_loop items n =
    foldl (\<lambda>n it. parse_step it n) n (takeWhile (\<lambda>it. item_value it \<noteq> []) items)"
  by (induction items arbitrary: n) (simp_all add: parse_loop_Cons del: pcie_parse_msg_loop.simps(2))

lemma fold_plugin_instance:
  "plugin_instance (foldl (\<lambda>n it. parse_step it n) n its) =
    (case filter is_device_item its of
       [] \<Rightarrow> plugin_instance n
     | ds \<Rightarrow> sstrncpy (item_value (last ds)) DATA_MAX_NAME_LEN)"
proof (induction its rule: rev_induct)
  case Nil
  show ?case by simp
next
  case (snoc it its)
  then show ?case
    by (auto simp: parse_step_def item_kinds_exclusive split: list.splits)
qed

lemma fold_meta:
  "meta (foldl (\<lambda>n it. parse_step it n) n its) =
    meta n @ map (\<lambda>it. (item_name it, item_value it))
      (filter (\<lambda>it. \<not> is_severity_item it \<and> \<not> is_device_item it) its)"
proof (induction its rule: rev_induct)
  case Nil
  show ?case by simp
next
  case (snoc it its)
  then show ?case
    by (auto simp: parse_step_def)
qed

lemma fold_type_instance:
  "type_instance (foldl (\<lambda>n it. parse_step it n) n its) =
    (case filter is_severity_item its of
       [] \<Rightarrow> type_instance n
     | ss \<Rightarrow> log_class (item_value (last ss)))"
proof (induction its rule: rev_induct)
  case Nil
  show ?case by simp
next
  case (snoc it its)
  then show ?case
    by (auto simp: parse_step_def log_class_def split: list.splits)
qed

lemma fold_severity:
  "severity (foldl (\<lambda>n it. parse_step it n) n its) =
    (if \<exists>it\<in>set (filter is_severity_item its). log_severity (item_value it) = NOTIF_FAILURE
     then NOTIF_FAILURE else severity n)"
proof (induction its rule: rev_induct)
  case Nil
  show ?case by simp
next
  case (snoc it its)
  then show ?case
    by (auto simp: parse_step_def log_severity_def)
qed

lemma parse_msg_fields:
  "plugin_instance (pcie_parse_msg msg max_items) =
     plugin_instance (pcie_parse_msg_loop (take max_items (message_items msg))
       (notif_init NOTIF_WARNING))"
  "meta (pcie_parse_msg msg max_items) =
     meta (pcie_parse_msg_loop (take max_items (message_items msg)) (notif_init NOTIF_WARNING))"
  "type_instance (pcie_parse_msg msg max_items) =
     type_instance (pcie_parse_msg_loop (take max_items (message_items msg))
       (notif_init NOTIF_WARNING))"
  "severity (pcie_parse_msg msg max_items) =
     severity (pcie_parse_msg_loop (take max_items (message_items msg))
       (notif_init NOTIF_WARNING))"
  by (simp_all add: pcie_parse_msg_def pcie_do_dispatch_notification_def Let_def)

text \<open>
  C6 (as amended). For a field set with one severity field among the items read, the
  value of that field is classified by substring match in fixed priority order: a value
  that mentions "non-fatal" (\<open>n\<close> and \<open>f\<close> in either case, the other letters in lower case)
  gives type instance "non\_fatal" with severity warning; else a value that mentions
  "fatal" or "Fatal" gives "fatal" with severity failure; else "correctable" with
  severity warning. In particular a value containing "Non-Fatal" is non-fatal, not fatal.
\<close>

theorem log_severity_classification:
  assumes "filter is_severity_item (live_items msg max_items) = [it]"
  shows "type_instance (pcie_parse_msg msg max_items) = log_class (item_value it) \<and>
    severity (pcie_parse_msg msg max_items) = log_severity (item_value it) \<and>
    (sublist ''Non-Fatal'' (item_value it) \<longrightarrow>
       type_instance (pcie_parse_msg msg max_items) = ''non_fatal'' \<and>
       severity (pcie_parse_msg msg max_items) = NOTIF_WARNING)"
proof -
  have t: "type_instance (pcie_parse_msg msg max_items) = log_class (item_value it)"
    using assms
    by (simp add: parse_msg_fields parse_loop_fold fold_type_instance live_items_def)
  have s: "severity (pcie_parse_msg msg max_items) = log_severity (item_value it)"
    using assms
    by (simp add: parse_msg_fields parse_loop_fold fold_severity live_items_def notif_init_def
        log_severity_def)
  show ?thesis
    unfolding t s by (simp add: log_class_def log_severity_def mentions_non_fatal_def)
qed

text \<open>The match is not case-insensitive: "NON-FATAL" is classified correctable.\<close>

theorem upper_case_not_classified:
  "type_instance (pcie_parse_msg msg_upper_case 32) = ''correctable'' \<and>
   severity (pcie_parse_msg msg_upper_case 32) = NOTIF_WARNING"
  by code_simp

theorem log_severity_classification_witness:
  "filter is_severity_item (live_items msg_non_fatal 32) =
     [\<lparr>item_name = ''severity'', item_value = ''Uncorrected (Non-Fatal)''\<rparr>] \<and>
   sublist ''Non-Fatal'' ''Uncorrected (Non-Fatal)'' \<and>
   sublist ''Fatal'' ''Uncorrected (Non-Fatal)'' \<and>
   type_instance (pcie_parse_msg msg_non_fatal 32) = ''non_fatal'' \<and>
   severity (pcie_parse_msg msg_non_fatal 32) = NOTIF_WARNING"
proof -
  have h: "filter is_severity_item (live_items msg_non_fatal 32) =
     [\<lparr>item_name = ''severity'', item_value = ''Uncorrected (Non-Fatal)''\<rparr>]"
    "sublist ''Non-Fatal'' ''Uncorrected (Non-Fatal)''"
    "sublist ''Fatal'' ''Uncorrected (Non-Fatal)''"
    by code_simp+
  have v: "item_value \<lparr>item_name = ''severity'', item_value = ''Uncorrected (Non-Fatal)''\<rparr> =
      ''Uncorrected (Non-Fatal)''"
    by simp
  from log_severity_classification[OF h(1), unfolded v] h show ?thesis by blast
qed

text \<open>
  C7 (as amended). For every field set, with the items read being those before the first
  item whose value is empty: the subject identity of the event is the value (as the name
  buffer holds it) of the last item read whose name begins with "device", or empty when
  there is none; and the metadata of the event are the name/value pairs of the items read
  whose name begins neither with "severity" nor with "device", in order.
\<close>

theorem log_event_identity_and_metadata:
  "plugin_instance (pcie_parse_msg msg max_items) =
     (case filter is_device_item (live_items msg max_items) of
        [] \<Rightarrow> []
      | ds \<Rightarrow> sstrncpy (item_value (last ds)) DATA_MAX_NAME_LEN) \<and>
   meta (pcie_parse_msg msg max_items) =
     map (\<lambda>it. (item_name it, item_value it))
       (filter (\<lambda>it. \<not> is_severity_item it \<and> \<not> is_device_item it)
          (live_items msg max_items))"
  by (simp add: parse_msg_fields parse_loop_fold fold_plugin_instance fold_meta live_items_def
      notif_init_def split: list.splits)

text \<open>
  An optional field that is present with an empty value ends the field set: the "id"
  field after it does not become metadata.
\<close>

theorem empty_field_ends_fields:
  "meta (pcie_parse_msg msg_no_type 32) = [(''root port'', ''0000:00:03.0'')]"
  by code_simp

theorem log_event_identity_and_metadata_witness:
  "live_items msg_non_fatal 32 = take 5 (message_items msg_non_fatal) \<and>
   plugin_instance (pcie_parse_msg msg_non_fatal 32) = ''0000:01:00.0'' \<and>
   meta (pcie_parse_msg msg_non_fatal 32) =
     [(''root port'', ''0000:00:03.0''), (''error type'', ''Transaction Layer''),
      (''id'', ''0008'')]"
proof -
  have l: "live_items msg_non_fatal 32 = take 5 (message_items msg_non_fatal)"
    by code_simp
  have d: "(case filter is_device_item (take 5 (message_items msg_non_fatal)) of
        [] \<Rightarrow> []
      | ds \<Rightarrow> sstrncpy (item_value (last ds)) DATA_MAX_NAME_LEN) = ''0000:01:00.0''"
    by code_simp
  have m: "map (\<lambda>it. (item_name it, item_value it))
       (filter (\<lambda>it. \<not> is_severity_item it \<and> \<not> is_device_item it)
          (take 5 (message_items msg_non_fatal))) =
     [(''root port'', ''0000:00:03.0''), (''error type'', ''Transaction Layer''),
      (''id'', ''0008'')]"
    by code_simp
  from log_event_identity_and_metadata[of msg_non_fatal 32, unfolded l d m] l
  show ?thesis by simp
qed

end
